theory Spec2Isabelle
  imports Complex_Main "HOL-Library.Word" "HOL-Library.Sublist"
begin

section \<open>Configuration options (location\_options.h)\<close>

text \<open>
  The constellation bitmap is an enum used as a bit set, the antenna pin a 16-bit pin
  number, the HDOP threshold a C int, the accuracy threshold a float and the maximum fix
  time an unsigned int. Floats and doubles are modelled as reals throughout: finite values
  without rounding.
\<close>

type_synonym LocationConstellation = "32 word"
type_synonym pin_t = "16 word"

definition LOCATION_CONST_GPS_ONLY :: LocationConstellation where
  "LOCATION_CONST_GPS_ONLY = 0"

definition LOCATION_CONST_GPS_GLONASS :: LocationConstellation where
  "LOCATION_CONST_GPS_GLONASS = push_bit 0 1"

definition LOCATION_CONST_GPS_BEIDOU :: LocationConstellation where
  "LOCATION_CONST_GPS_BEIDOU = push_bit 1 1"

definition LOCATION_CONST_GPS_GALILEO :: LocationConstellation where
  "LOCATION_CONST_GPS_GALILEO = push_bit 2 1"

definition LOCATION_CONST_GPS_QZSS :: LocationConstellation where
  "LOCATION_CONST_GPS_QZSS = push_bit 3 1"

definition LocationHdopDefault :: int where
  "LocationHdopDefault = 100"

definition LocationHaccDefault :: real where
  "LocationHaccDefault = 50.0"

definition LocationFixTimeDefault :: "32 word" where
  "LocationFixTimeDefault = 90"

text \<open>The pin number that Device OS reserves for "no pin"; the value is Device OS's.\<close>

definition PIN_INVALID :: pin_t where
  "PIN_INVALID = 0xFF"

record LocationConfiguration =
  constellations :: LocationConstellation
  antennaPin :: pin_t
  hdop_thr :: int
  hacc_thr :: real
  maxFixSeconds :: "32 word"

text \<open>The default constructor.\<close>

definition LocationConfiguration_default :: LocationConfiguration where
  "LocationConfiguration_default =
     \<lparr>constellations = LOCATION_CONST_GPS_GLONASS,
      antennaPin = PIN_INVALID,
      hdop_thr = LocationHdopDefault,
      hacc_thr = LocationHaccDefault,
      maxFixSeconds = LocationFixTimeDefault\<rparr>"

text \<open>The setters; the getters are the record's selectors.\<close>

definition set_constellations :: "LocationConstellation \<Rightarrow> LocationConfiguration \<Rightarrow> LocationConfiguration" where
  "set_constellations c conf = conf\<lparr>constellations := c\<rparr>"

definition enableAntennaPower :: "pin_t \<Rightarrow> LocationConfiguration \<Rightarrow> LocationConfiguration" where
  "enableAntennaPower pin conf = conf\<lparr>antennaPin := pin\<rparr>"

definition hdopThreshold :: "int \<Rightarrow> LocationConfiguration \<Rightarrow> LocationConfiguration" where
  "hdopThreshold hdop conf =
     conf\<lparr>hdop_thr := (if 0 > hdop then 0 else if 100 < hdop then 100 else hdop)\<rparr>"

definition haccThreshold :: "real \<Rightarrow> LocationConfiguration \<Rightarrow> LocationConfiguration" where
  "haccThreshold hacc conf = conf\<lparr>hacc_thr := hacc\<rparr>"

definition maximumFixTime :: "32 word \<Rightarrow> LocationConfiguration \<Rightarrow> LocationConfiguration" where
  "maximumFixTime fixSeconds conf = conf\<lparr>maxFixSeconds := fixSeconds\<rparr>"

text \<open>
  \<open>operator=\<close>: the left-hand side \<open>this\<close> takes four members of \<open>rhs\<close>. The
  accuracy threshold is not among the members the body copies. When both sides are the
  same object the early return leaves it as it is, which the four updates do as well.
\<close>

definition assign_conf :: "LocationConfiguration \<Rightarrow> LocationConfiguration \<Rightarrow> LocationConfiguration" where
  "assign_conf this rhs =
     this\<lparr>constellations := constellations rhs,
          antennaPin := antennaPin rhs,
          hdop_thr := hdop_thr rhs,
          maxFixSeconds := maxFixSeconds rhs\<rparr>"

section \<open>Result types (location.h, location\_point.h)\<close>

datatype LocationCommand = CmdNone | Acquire | Exit

datatype LocationResults =
  Unavailable | Unsupported | Idle | Acquiring | Pending | Fixed | TimedOut

datatype CME_Error =
  NONE | FIX | SESSION_IS_ONGOING | SESSION_NOT_ACTIVE | OPERATION_TIMEOUT
  | NO_FIX | GNSS_IS_WORKING | UNKNOWN_ERROR | UNDEFINED

text \<open>The enumerators' values.\<close>

fun CME_Error_value :: "CME_Error \<Rightarrow> nat" where
  "CME_Error_value NONE = 0"
| "CME_Error_value FIX = 1"
| "CME_Error_value SESSION_IS_ONGOING = 504"
| "CME_Error_value SESSION_NOT_ACTIVE = 505"
| "CME_Error_value OPERATION_TIMEOUT = 506"
| "CME_Error_value NO_FIX = 516"
| "CME_Error_value GNSS_IS_WORKING = 522"
| "CME_Error_value UNKNOWN_ERROR = 549"
| "CME_Error_value UNDEFINED = 999"

datatype ModemType = MT_Unavailable | MT_Unsupported | BG95_M5 | EG91

record LocationPoint =
  p_fix :: "32 word"
  epochTime :: int
  systemTime :: int
  latitude :: real
  longitude :: real
  altitude :: real
  speed :: real
  heading :: real
  horizontalAccuracy :: real
  horizontalDop :: real
  verticalAccuracy :: real
  verticalDop :: real
  timeToFirstFix :: real
  satsInUse :: "32 word"

text \<open>\<open>std::tm\<close>, the broken-down time handed to the C library's \<open>mktime\<close>.\<close>

record tm =
  tm_sec :: int
  tm_min :: int
  tm_hour :: int
  tm_mday :: int
  tm_mon :: int
  tm_year :: int
  tm_wday :: int
  tm_yday :: int
  tm_isdst :: int

text \<open>\<open>QlocContext\<close> and \<open>EpeContext\<close>: the members the scans write to.\<close>

record QlocContext =
  q_tm_hour :: "32 word"
  q_tm_min :: "32 word"
  q_tm_sec :: "32 word"
  q_tm_day :: "32 word"
  q_tm_month :: "32 word"
  q_tm_year :: "32 word"
  q_latitude :: real
  q_longitude :: real
  q_fix :: "32 word"
  q_hdop :: real
  q_altitude :: real
  q_cogDegrees :: "32 word"
  q_cogMinutes :: "32 word"
  q_speedKmph :: real
  q_speedKnots :: real
  q_nsat :: "32 word"
  timeinfo :: tm

record EpeContext =
  h_acc :: real
  v_acc :: real
  speed_acc :: real
  head_acc :: real

section \<open>The C library's \<open>sscanf\<close>, for the directives the parsers use\<close>

text \<open>
  The parsers scan the modem's reply with \<open>sscanf\<close>. The model reads the format string
  itself: white space in the format skips any white space in the input, an ordinary
  character has to match the next input character, and a conversion \<open>%[*][width]u\<close>,
  \<open>%[*][width]f\<close> or \<open>%[*][width]lf\<close> skips white space and converts the longest
  matching prefix within the field width. The unsigned conversion takes an optional sign
  and decimal digits and yields what \<open>strtoul\<close> yields on a 32-bit target (negated
  modulo \<open>2^32\<close> after a minus sign, \<open>ULONG_MAX\<close> when out of range). The floating
  conversion takes an optional sign and decimal digits around an optional point; the
  exponent, hexadecimal, infinity and not-a-number spellings, which are not part of the
  modem's replies, are not recognised.

  The scan stops at the first directive that fails. It returns the number of items
  assigned, or \<open>EOF\<close> when the input ends before anything was assigned.
\<close>

definition isspace :: "char \<Rightarrow> bool" where
  "isspace c \<longleftrightarrow> c \<in> {CHR '' '', CHR 0x09, CHR 0x0A, CHR 0x0B, CHR 0x0C, CHR 0x0D}"

definition isdigit :: "char \<Rightarrow> bool" where
  "isdigit c \<longleftrightarrow> c \<in> set ''0123456789''"

definition digit_val :: "char \<Rightarrow> nat" where
  "digit_val c = of_char c - 48"

datatype conv = ConvU | ConvF | ConvLF

datatype directive = White | Literal char | Conv bool "nat option" conv | BadFormat

datatype fstate = Plain | Spec bool "nat option" bool

fun parse_format :: "fstate \<Rightarrow> string \<Rightarrow> directive list" where
  "parse_format Plain [] = []"
| "parse_format (Spec star w l) [] = [BadFormat]"
| "parse_format Plain (c # cs) =
     (if c = CHR ''%'' then parse_format (Spec False None False) cs
      else if isspace c then White # parse_format Plain cs
      else Literal c # parse_format Plain cs)"
| "parse_format (Spec star w l) (c # cs) =
     (if c = CHR ''*'' then parse_format (Spec True w l) cs
      else if isdigit c then
        parse_format (Spec star (Some (10 * (case w of None \<Rightarrow> 0 | Some n \<Rightarrow> n) + digit_val c)) l) cs
      else if c = CHR ''l'' then parse_format (Spec star w True) cs
      else if c = CHR ''u'' then Conv star w ConvU # parse_format Plain cs
      else if c = CHR ''f'' then Conv star w (if l then ConvLF else ConvF) # parse_format Plain cs
      else [BadFormat])"

definition skip_ws :: "string \<Rightarrow> string" where
  "skip_ws s = dropWhile isspace s"

text \<open>The part of the input a conversion with the given field width may read.\<close>

definition window :: "nat option \<Rightarrow> string \<Rightarrow> string" where
  "window w s = (case w of None \<Rightarrow> s | Some n \<Rightarrow> take n s)"

text \<open>An optional sign: whether it is a minus, and how many characters it takes.\<close>

definition scan_sign :: "string \<Rightarrow> bool \<times> nat" where
  "scan_sign s =
     (case s of [] \<Rightarrow> (False, 0)
      | c # cs \<Rightarrow> if c = CHR ''-'' then (True, 1) else if c = CHR ''+'' then (False, 1) else (False, 0))"

definition nat_of_digits :: "string \<Rightarrow> nat" where
  "nat_of_digits ds = foldl (\<lambda>a c. 10 * a + digit_val c) 0 ds"

definition strtoul_value :: "bool \<Rightarrow> string \<Rightarrow> 32 word" where
  "strtoul_value neg ds =
     (let n = nat_of_digits ds in
      if n > 4294967295 then 4294967295
      else if neg then - of_nat n else of_nat n)"

definition strtod_value :: "bool \<Rightarrow> string \<Rightarrow> string \<Rightarrow> real" where
  "strtod_value neg ip fd =
     (let v = real (nat_of_digits ip) + real (nat_of_digits fd) / 10 ^ length fd in
      if neg then - v else v)"

datatype 'a scanned = Converted 'a string | MatchFail | InputFail

definition scan_uint :: "nat option \<Rightarrow> string \<Rightarrow> 32 word scanned" where
  "scan_uint w s0 =
     (let s = skip_ws s0 in
      if s = [] then InputFail
      else
        let win = window w s;
            (neg, k) = scan_sign win;
            ds = takeWhile isdigit (drop k win)
        in if ds = [] then MatchFail
           else Converted (strtoul_value neg ds) (drop (k + length ds) s))"

definition scan_float :: "nat option \<Rightarrow> string \<Rightarrow> real scanned" where
  "scan_float w s0 =
     (let s = skip_ws s0 in
      if s = [] then InputFail
      else
        let win = window w s;
            (neg, k) = scan_sign win;
            ip = takeWhile isdigit (drop k win);
            after = drop (k + length ip) win;
            point = (after \<noteq> [] \<and> hd after = CHR ''.'');
            fd = (if point then takeWhile isdigit (tl after) else [])
        in if ip = [] \<and> fd = [] then MatchFail
           else Converted (strtod_value neg ip fd)
                  (drop (k + length ip + (if point then 1 + length fd else 0)) s))"

text \<open>
  The pointer arguments of a call, as the stores they make: each says which kind of
  object it points to and how the converted value changes the caller's data.
\<close>

datatype 'c arg =
  ArgU "32 word \<Rightarrow> 'c \<Rightarrow> 'c" | ArgF "real \<Rightarrow> 'c \<Rightarrow> 'c" | ArgLF "real \<Rightarrow> 'c \<Rightarrow> 'c"

definition EOF :: int where
  "EOF = - 1"

definition input_failure :: "nat \<Rightarrow> int" where
  "input_failure nassigned = (if nassigned = 0 then EOF else int nassigned)"

text \<open>
  One conversion: suppressed (\<open>*\<close>), it converts and stores nothing; otherwise it stores
  through the next pointer argument and counts one more assigned item. The result is
  either the state in which the scan goes on (remaining arguments, remaining input,
  items assigned, the caller's data) or the value \<open>sscanf\<close> returns. A conversion whose
  argument is missing or points to the wrong kind of object is undefined in C; the model
  stops the scan there. The calls below give every conversion its argument.
\<close>

datatype 'c progress = Go "'c arg list" string nat 'c | Return int 'c

definition stored :: "'a scanned \<Rightarrow> ('a \<Rightarrow> 'c \<Rightarrow> 'c) \<Rightarrow> 'c arg list \<Rightarrow> nat \<Rightarrow> 'c \<Rightarrow> 'c progress" where
  "stored r store args n c =
     (case r of
        Converted v rest \<Rightarrow> Go args rest (Suc n) (store v c)
      | MatchFail \<Rightarrow> Return (int n) c
      | InputFail \<Rightarrow> Return (input_failure n) c)"

definition suppressed :: "'a scanned \<Rightarrow> 'c arg list \<Rightarrow> nat \<Rightarrow> 'c \<Rightarrow> 'c progress" where
  "suppressed r args n c =
     (case r of
        Converted v rest \<Rightarrow> Go args rest n c
      | MatchFail \<Rightarrow> Return (int n) c
      | InputFail \<Rightarrow> Return (input_failure n) c)"

definition convert :: "bool \<Rightarrow> nat option \<Rightarrow> conv \<Rightarrow> 'c arg list \<Rightarrow> string \<Rightarrow> nat \<Rightarrow> 'c \<Rightarrow> 'c progress" where
  "convert star w k args s n c =
     (if star then
        (case k of
           ConvU \<Rightarrow> suppressed (scan_uint w s) args n c
         | ConvF \<Rightarrow> suppressed (scan_float w s) args n c
         | ConvLF \<Rightarrow> suppressed (scan_float w s) args n c)
      else
        (case args of
           [] \<Rightarrow> Return (int n) c
         | a # args' \<Rightarrow>
             (case (k, a) of
                (ConvU, ArgU store) \<Rightarrow> stored (scan_uint w s) store args' n c
              | (ConvF, ArgF store) \<Rightarrow> stored (scan_float w s) store args' n c
              | (ConvLF, ArgLF store) \<Rightarrow> stored (scan_float w s) store args' n c
              | _ \<Rightarrow> Return (int n) c)))"

fun scan_run :: "directive list \<Rightarrow> 'c arg list \<Rightarrow> string \<Rightarrow> nat \<Rightarrow> 'c \<Rightarrow> int \<times> 'c" where
  "scan_run [] args s n c = (int n, c)"
| "scan_run (White # ds) args s n c = scan_run ds args (skip_ws s) n c"
| "scan_run (Literal x # ds) args s n c =
     (case s of
        [] \<Rightarrow> (input_failure n, c)
      | y # ys \<Rightarrow> if x = y then scan_run ds args ys n c else (int n, c))"
| "scan_run (Conv star w k # ds) args s n c =
     (case convert star w k args s n c of
        Go args' rest n' c' \<Rightarrow> scan_run ds args' rest n' c'
      | Return r c' \<Rightarrow> (r, c'))"
| "scan_run (BadFormat # ds) args s n c = (int n, c)"

definition sscanf :: "string \<Rightarrow> string \<Rightarrow> 'c arg list \<Rightarrow> 'c \<Rightarrow> int \<times> 'c" where
  "sscanf buf format args c = scan_run (parse_format Plain format) args buf 0 c"

section \<open>The response parsers (location.cpp)\<close>

definition parseCmeError :: "string \<Rightarrow> CME_Error" where
  "parseCmeError buf =
     (let (nargs, error_code) = sscanf buf '' +CME ERROR: %u'' [ArgU (\<lambda>v _. v)] (0 :: 32 word) in
      if 0 = nargs then NONE
      else if error_code = 504 then SESSION_IS_ONGOING
      else if error_code = 505 then SESSION_NOT_ACTIVE
      else if error_code = 506 then OPERATION_TIMEOUT
      else if error_code = 516 then NO_FIX
      else if error_code = 522 then GNSS_IS_WORKING
      else if error_code = 549 then UNKNOWN_ERROR
      else UNDEFINED)"

text \<open>
  \<open>parseQloc\<close>. The C library's \<open>mktime\<close> is a parameter: it takes the broken-down
  time and returns the calendar time together with the normalised structure it leaves
  behind. The unsigned members are stored into the signed members of \<open>std::tm\<close> as two's
  complement. The function returns its status, the context and the point; the scan
  writes to the context before the status is known.
\<close>

definition qloc_format :: string where
  "qloc_format = '' +QGPSLOC: %02u%02u%02u.%*03u,%lf,%lf,%f,%f,%u,%03u.%02u,%f,%f,%02u%02u%02u,%u''"

definition qloc_args :: "QlocContext arg list" where
  "qloc_args =
     [ArgU (\<lambda>v c. c\<lparr>q_tm_hour := v\<rparr>), ArgU (\<lambda>v c. c\<lparr>q_tm_min := v\<rparr>), ArgU (\<lambda>v c. c\<lparr>q_tm_sec := v\<rparr>),
      ArgLF (\<lambda>v c. c\<lparr>q_latitude := v\<rparr>), ArgLF (\<lambda>v c. c\<lparr>q_longitude := v\<rparr>),
      ArgF (\<lambda>v c. c\<lparr>q_hdop := v\<rparr>), ArgF (\<lambda>v c. c\<lparr>q_altitude := v\<rparr>),
      ArgU (\<lambda>v c. c\<lparr>q_fix := v\<rparr>), ArgU (\<lambda>v c. c\<lparr>q_cogDegrees := v\<rparr>), ArgU (\<lambda>v c. c\<lparr>q_cogMinutes := v\<rparr>),
      ArgF (\<lambda>v c. c\<lparr>q_speedKmph := v\<rparr>), ArgF (\<lambda>v c. c\<lparr>q_speedKnots := v\<rparr>),
      ArgU (\<lambda>v c. c\<lparr>q_tm_day := v\<rparr>), ArgU (\<lambda>v c. c\<lparr>q_tm_month := v\<rparr>), ArgU (\<lambda>v c. c\<lparr>q_tm_year := v\<rparr>),
      ArgU (\<lambda>v c. c\<lparr>q_nsat := v\<rparr>)]"

definition parseQloc ::
  "(tm \<Rightarrow> int \<times> tm) \<Rightarrow> string \<Rightarrow> QlocContext \<Rightarrow> LocationPoint \<Rightarrow> int \<times> QlocContext \<times> LocationPoint" where
  "parseQloc mktime buf context point =
     (let (nargs, context) = sscanf buf qloc_format qloc_args context in
      if 0 = nargs then (- 1, context, point)
      else
        let ti = (timeinfo context)
                   \<lparr>tm_year := sint (q_tm_year context + 2000 - 1900),
                    tm_mon := sint (q_tm_month context - 1),
                    tm_mday := sint (q_tm_day context),
                    tm_hour := sint (q_tm_hour context),
                    tm_min := sint (q_tm_min context),
                    tm_sec := sint (q_tm_sec context)\<rparr>;
            (t, ti) = mktime ti;
            context = context\<lparr>timeinfo := ti\<rparr>;
            point = point
                   \<lparr>epochTime := t,
                    p_fix := q_fix context,
                    latitude := q_latitude context,
                    longitude := q_longitude context,
                    altitude := q_altitude context,
                    speed := q_speedKmph context * 1000.0,
                    heading := real (unat (q_cogDegrees context)) + real (unat (q_cogMinutes context)) / 60.0,
                    horizontalDop := q_hdop context,
                    satsInUse := q_nsat context\<rparr>
        in (0, context, point))"

definition parseQlocResponse ::
  "(tm \<Rightarrow> int \<times> tm) \<Rightarrow> string \<Rightarrow> QlocContext \<Rightarrow> LocationPoint \<Rightarrow> CME_Error \<times> QlocContext \<times> LocationPoint" where
  "parseQlocResponse mktime buf context point =
     (let result = parseCmeError buf in
      if NO_FIX = result then (result, context, point\<lparr>p_fix := 0\<rparr>)
      else if NONE \<noteq> result then (NONE, context, point)
      else
        let (r, context, point) = parseQloc mktime buf context point
        in (FIX, context, point))"

definition epe_format :: string where
  "epe_format = '' +QGPSCFG: '' @ [CHR 0x22] @ ''estimation_error'' @ [CHR 0x22] @ '',%f,%f,%f,%f''"

definition epe_args :: "EpeContext arg list" where
  "epe_args =
     [ArgF (\<lambda>v c. c\<lparr>h_acc := v\<rparr>), ArgF (\<lambda>v c. c\<lparr>v_acc := v\<rparr>),
      ArgF (\<lambda>v c. c\<lparr>speed_acc := v\<rparr>), ArgF (\<lambda>v c. c\<lparr>head_acc := v\<rparr>)]"

definition parseEpeResponse :: "string \<Rightarrow> EpeContext \<Rightarrow> LocationPoint \<Rightarrow> EpeContext \<times> LocationPoint" where
  "parseEpeResponse buf context point =
     (let result = parseCmeError buf in
      if NONE \<noteq> result then (context, point)
      else
        let (nargs, context) = sscanf buf epe_format epe_args context in
        if nargs \<noteq> 0
        then (context, point\<lparr>horizontalAccuracy := h_acc context, verticalAccuracy := v_acc context\<rparr>)
        else (context, point))"

section \<open>The engine (location.h, location.cpp)\<close>

text \<open>
  A queued command. The completion callback is known by a name, the caller's point by
  its address.
\<close>

record LocationCommandContext =
  command :: LocationCommand
  sendResponse :: bool
  doneCallback :: "nat option"
  publish :: bool
  point :: "nat option"

text \<open>
  The members of \<open>SomLocation\<close> that the functions below read or write. The
  command queue is created with room for one element; the response queue is seen from
  the waiting caller only (\<open>os_queue_take\<close> below).
\<close>

record SomLocation =
  commandQueue :: "LocationCommandContext list"
  acquiring :: bool
  locBuffer :: string
  epeBuffer :: string
  qlocContext :: QlocContext
  epeContext :: EpeContext
  conf :: LocationConfiguration
  antennaPowerPin :: pin_t
  modemType :: ModemType
  reqid :: "32 word"

definition LOCATION_PERIOD_SUCCESS_MS :: "32 word" where
  "LOCATION_PERIOD_SUCCESS_MS = 1 * 1000"

definition LOCATION_PERIOD_ACQUIRE_MS :: "32 word" where
  "LOCATION_PERIOD_ACQUIRE_MS = 1 * 1000"

definition LOCATION_REQUIRED_SETTLING_COUNT :: int where
  "LOCATION_REQUIRED_SETTLING_COUNT = 2"

text \<open>
  What a call sees of the device: whether the modem is on, which modem the system
  reports (the switch in \<open>detectModemType\<close> tells apart the identifier 0, the BG95-M5
  and every other one), whether the cloud is connected and whether a publish succeeds.
\<close>

datatype CellularDevice = DEV_UNKNOWN | DEV_QUECTEL_BG95_M5 | DEV_OTHER

record device =
  isModemOn :: bool
  celldev :: CellularDevice
  isConnected :: bool
  publishes :: bool

definition modemNotDetected :: "SomLocation \<Rightarrow> bool" where
  "modemNotDetected s \<longleftrightarrow> MT_Unavailable = modemType s"

definition detectModemType :: "device \<Rightarrow> SomLocation \<Rightarrow> bool \<times> SomLocation" where
  "detectModemType d s =
     (if modemNotDetected s \<and> isModemOn d then
        (case celldev d of
           DEV_UNKNOWN \<Rightarrow> (False, s)
         | DEV_QUECTEL_BG95_M5 \<Rightarrow> (True, s\<lparr>modemType := BG95_M5\<rparr>)
         | DEV_OTHER \<Rightarrow> (False, s\<lparr>modemType := MT_Unsupported\<rparr>))
      else if \<not> modemNotDetected s \<and> MT_Unsupported \<noteq> modemType s then (True, s)
      else (False, s))"

text \<open>
  \<open>SomLocation::begin\<close>. The pin mode and the constellation command it sends to the modem change
  nothing in the object and are left out.
\<close>

definition SomLocation_begin :: "device \<Rightarrow> LocationConfiguration \<Rightarrow> SomLocation \<Rightarrow> int \<times> SomLocation" where
  "SomLocation_begin d configuration s =
     (let s = s\<lparr>conf := assign_conf (conf s) configuration\<rparr>;
          s = s\<lparr>antennaPowerPin := antennaPin (conf s)\<rparr>;
          s = (if isModemOn d \<and> modemNotDetected s then snd (detectModemType d s) else s)
      in (0, s))"

text \<open>The object as its declaration initialises it, before \<open>begin\<close>.\<close>

definition QlocContext_init :: QlocContext where
  "QlocContext_init =
     \<lparr>q_tm_hour = 0, q_tm_min = 0, q_tm_sec = 0, q_tm_day = 0, q_tm_month = 0, q_tm_year = 0,
      q_latitude = 0, q_longitude = 0, q_fix = 0, q_hdop = 0, q_altitude = 0,
      q_cogDegrees = 0, q_cogMinutes = 0, q_speedKmph = 0, q_speedKnots = 0, q_nsat = 0,
      timeinfo = \<lparr>tm_sec = 0, tm_min = 0, tm_hour = 0, tm_mday = 0, tm_mon = 0, tm_year = 0,
                  tm_wday = 0, tm_yday = 0, tm_isdst = 0\<rparr>\<rparr>"

definition EpeContext_init :: EpeContext where
  "EpeContext_init = \<lparr>h_acc = 0, v_acc = 0, speed_acc = 0, head_acc = 0\<rparr>"

definition SomLocation_init :: "string \<Rightarrow> string \<Rightarrow> SomLocation" where
  "SomLocation_init loc epe =
     \<lparr>commandQueue = [], acquiring = False, locBuffer = loc, epeBuffer = epe,
      qlocContext = QlocContext_init, epeContext = EpeContext_init,
      conf = LocationConfiguration_default, antennaPowerPin = PIN_INVALID,
      modemType = MT_Unavailable, reqid = 1\<rparr>"

text \<open>A caller's point as \<open>LocationPoint point = {}\<close> makes it.\<close>

definition LocationPoint_zero :: LocationPoint where
  "LocationPoint_zero =
     \<lparr>p_fix = 0, epochTime = 0, systemTime = 0, latitude = 0, longitude = 0, altitude = 0,
      speed = 0, heading = 0, horizontalAccuracy = 0, horizontalDop = 0, verticalAccuracy = 0,
      verticalDop = 0, timeToFirstFix = 0, satsInUse = 0\<rparr>"

subsection \<open>The queues\<close>

text \<open>
  \<open>os_queue_put\<close> with no waiting: the element is dropped when the queue is full.
\<close>

definition os_queue_put :: "nat \<Rightarrow> 'a list \<Rightarrow> 'a \<Rightarrow> 'a list" where
  "os_queue_put capacity q x = (if length q < capacity then q @ [x] else q)"

text \<open>
  \<open>os_queue_take\<close> on the response queue, seen from the waiting caller: the worker's
  response, if one comes, arrives some milliseconds after the wait began. The take
  succeeds (status 0) when it arrives within the timeout, and a timeout of all ones
  waits without bound, as the system's queues do; otherwise the take fails when the
  timeout has passed. The result is the status, the element and the time waited, or
  \<open>None\<close> when the call never returns.
\<close>

definition CONCURRENT_WAIT_FOREVER :: "32 word" where
  "CONCURRENT_WAIT_FOREVER = - 1"

definition os_queue_take :: "(nat \<times> 'a) option \<Rightarrow> 32 word \<Rightarrow> (int \<times> 'a option \<times> nat) option" where
  "os_queue_take arrival timeout =
     (case arrival of
        None \<Rightarrow> if timeout = CONCURRENT_WAIT_FOREVER then None else Some (1, None, unat timeout)
      | Some (t, x) \<Rightarrow>
          if timeout = CONCURRENT_WAIT_FOREVER \<or> t \<le> unat timeout then Some (0, Some x, t)
          else Some (1, None, unat timeout))"

definition waitOnResponseEvent :: "(nat \<times> LocationResults) option \<Rightarrow> 32 word \<Rightarrow> (LocationResults \<times> nat) option" where
  "waitOnResponseEvent arrival timeout =
     (case os_queue_take arrival timeout of
        None \<Rightarrow> None
      | Some (ret, item, waited) \<Rightarrow>
          let event = (case item of None \<Rightarrow> Idle | Some r \<Rightarrow> r) in
          Some (if ret \<noteq> 0 then Idle else event, waited))"

subsection \<open>The two \<open>getLocation\<close> overloads\<close>

text \<open>
  Both return their result and the object. The blocking overload also returns how long
  it waited for the response; its publish step increments the request number when the
  publish succeeds.
\<close>

definition getLocation_async ::
  "device \<Rightarrow> nat \<Rightarrow> nat option \<Rightarrow> bool \<Rightarrow> SomLocation \<Rightarrow> LocationResults \<times> SomLocation" where
  "getLocation_async d point_addr callback publish_flag s =
     (if \<not> isModemOn d then (Unavailable, s)
      else
        let (detected, s) = (if modemNotDetected s then detectModemType d s else (True, s)) in
        if \<not> detected then (Unsupported, s)
        else if acquiring s then (Pending, s)
        else
          let event = \<lparr>command = Acquire, sendResponse = False, doneCallback = callback,
                       publish = publish_flag, point = Some point_addr\<rparr>
          in (Acquiring, s\<lparr>commandQueue := os_queue_put 1 (commandQueue s) event\<rparr>))"

definition getLocation ::
  "device \<Rightarrow> (nat \<times> LocationResults) option \<Rightarrow> nat \<Rightarrow> bool \<Rightarrow> SomLocation
     \<Rightarrow> (LocationResults \<times> nat \<times> SomLocation) option" where
  "getLocation d arrival point_addr publish_flag s =
     (if \<not> isModemOn d then Some (Unavailable, 0, s)
      else
        let (detected, s) = (if modemNotDetected s then detectModemType d s else (True, s)) in
        if \<not> detected then Some (Unsupported, 0, s)
        else if acquiring s then Some (Pending, 0, s)
        else
          let event = \<lparr>command = Acquire, sendResponse = True, doneCallback = None,
                       publish = False, point = Some point_addr\<rparr>;
              s = s\<lparr>commandQueue := os_queue_put 1 (commandQueue s) event\<rparr>
          in case waitOnResponseEvent arrival
                    (ucast (maxFixSeconds (conf s)) * 1000 + LOCATION_PERIOD_ACQUIRE_MS) of
               None \<Rightarrow> None
             | Some (result, waited) \<Rightarrow>
                 if publish_flag \<and> Fixed = result \<and> isConnected d \<and> publishes d
                 then Some (result, waited, s\<lparr>reqid := reqid s + 1\<rparr>)
                 else Some (result, waited, s))"

subsection \<open>The worker's acquisition (the \<open>Acquire\<close> case of \<open>threadLoop\<close>)\<close>

text \<open>
  A command with a callback has the modem's reply lines handed to the callback one by
  one, each with the kind of line, its text and its length. The two callbacks keep the
  lines that begin with a plus sign and the error lines.
\<close>

datatype line_type = TYPE_PLUS | TYPE_ERROR | TYPE_OTHER

type_synonym reply = "(line_type \<times> string \<times> nat) list"

definition stripLfCr :: "string \<Rightarrow> string" where
  "stripLfCr str = filter (\<lambda>c. CHR 0x0A \<noteq> c \<and> CHR 0x0D \<noteq> c) str"

text \<open>\<open>strlcpy\<close> into a buffer: at most one less than the size given, nothing for size 0.\<close>

definition strlcpy :: "string \<Rightarrow> string \<Rightarrow> nat \<Rightarrow> string" where
  "strlcpy dst src dsize = (if dsize = 0 then dst else take (dsize - 1) src)"

definition glocCallback :: "line_type \<times> string \<times> nat \<Rightarrow> string \<Rightarrow> string" where
  "glocCallback l dst =
     (case l of
        (TYPE_OTHER, buf, len) \<Rightarrow> dst
      | (_, buf, len) \<Rightarrow> stripLfCr (strlcpy dst buf (min len 256)))"

definition epeCallback :: "line_type \<times> string \<times> nat \<Rightarrow> string \<Rightarrow> string" where
  "epeCallback l dst =
     (case l of
        (TYPE_OTHER, buf, len) \<Rightarrow> dst
      | (_, buf, len) \<Rightarrow> stripLfCr (strlcpy dst buf (min len 256)))"

text \<open>
  What one turn of the polling loop reads from the device, in the order the loop reads
  it: the modem's power, the millisecond clock, the reply to the position query, the
  clock and the wall time taken at the first fix, and the reply to the accuracy query.
\<close>

record poll =
  power :: bool
  now :: "64 word"
  loc_reply :: reply
  fix_millis :: "64 word"
  time_now :: int
  epe_reply :: reply

text \<open>
  The state of the loop: the object, the caller's point, and the locals \<open>fixCount\<close>
  and \<open>firstFix\<close>. The counter is a C int that is incremented at most once per turn,
  and a turn ends with a delay of a second; it is modelled as an unbounded integer.
\<close>

record acq =
  eng :: SomLocation
  pt :: LocationPoint
  fixCount :: int
  firstFix :: "64 word"

text \<open>
  One turn of the loop after the power and time checks, in its four steps. First the
  position query: the callback fills the buffer and \<open>parseQlocResponse\<close> decodes it.
\<close>

definition poll_position :: "(tm \<Rightarrow> int \<times> tm) \<Rightarrow> poll \<Rightarrow> acq \<Rightarrow> CME_Error \<times> acq" where
  "poll_position mktime p a =
     (case parseQlocResponse mktime (fold glocCallback (loc_reply p) (locBuffer (eng a)))
             (qlocContext (eng a)) (pt a) of
        (ret, ctx, pnt) \<Rightarrow>
          (ret, a\<lparr>eng := (eng a)\<lparr>locBuffer := fold glocCallback (loc_reply p) (locBuffer (eng a)),
                                  qlocContext := ctx\<rparr>,
                   pt := pnt\<rparr>))"

text \<open>Then the counting, and the time stamps at the first fix.\<close>

definition count_fix :: "poll \<Rightarrow> CME_Error \<Rightarrow> acq \<Rightarrow> acq" where
  "count_fix p ret a =
     (if FIX = ret then
        (if 0 = firstFix a
         then a\<lparr>fixCount := fixCount a + 1, firstFix := fix_millis p,
                pt := (pt a)\<lparr>systemTime := time_now p\<rparr>\<rparr>
         else a\<lparr>fixCount := fixCount a + 1\<rparr>)
      else a)"

text \<open>Then, on a BG95-M5, the accuracy query.\<close>

definition poll_accuracy :: "poll \<Rightarrow> acq \<Rightarrow> acq" where
  "poll_accuracy p a =
     (if BG95_M5 = modemType (eng a) then
        (case parseEpeResponse (fold epeCallback (epe_reply p) (epeBuffer (eng a)))
                (epeContext (eng a)) (pt a) of
           (ctx, pnt) \<Rightarrow>
             a\<lparr>eng := (eng a)\<lparr>epeBuffer := fold epeCallback (epe_reply p) (epeBuffer (eng a)),
                                epeContext := ctx\<rparr>,
               pt := pnt\<rparr>)
      else a)"

text \<open>Last the test that stops the loop with \<open>Fixed\<close>.\<close>

definition stop_test :: "CME_Error \<Rightarrow> acq \<Rightarrow> bool" where
  "stop_test ret a \<longleftrightarrow>
     FIX = ret \<and> LOCATION_REQUIRED_SETTLING_COUNT = fixCount a
     \<and> horizontalDop (pt a) \<le> real_of_int (hdop_thr (conf (eng a)))
     \<and> horizontalAccuracy (pt a) \<le> hacc_thr (conf (eng a))"

text \<open>
  The turn returns whether the test held, what the decoding returned, and the state.
\<close>

definition poll_cycle :: "(tm \<Rightarrow> int \<times> tm) \<Rightarrow> poll \<Rightarrow> acq \<Rightarrow> bool \<times> CME_Error \<times> acq" where
  "poll_cycle mktime p a =
     (case poll_position mktime p a of
        (ret, a1) \<Rightarrow>
          (stop_test ret (poll_accuracy p (count_fix p ret a1)), ret,
           poll_accuracy p (count_fix p ret a1)))"

text \<open>
  The loop, over the turns the device goes through. It returns the response, the last
  value of \<open>power\<close> and the state; \<open>None\<close> when the listed turns end before the loop
  does.
\<close>

fun acquire_loop ::
  "(tm \<Rightarrow> int \<times> tm) \<Rightarrow> 64 word \<Rightarrow> 64 word \<Rightarrow> poll list \<Rightarrow> acq \<Rightarrow> (LocationResults \<times> bool \<times> acq) option" where
  "acquire_loop mktime start maxTime [] a = None"
| "acquire_loop mktime start maxTime (p # ps) a =
     (if \<not> power p then Some (TimedOut, False, a)
      else if now p - start \<ge> maxTime then Some (TimedOut, True, a)
      else
        case poll_cycle mktime p a of
          (stop, ret, a') \<Rightarrow>
            if stop then Some (Fixed, True, a') else acquire_loop mktime start maxTime ps a')"

text \<open>After the loop, a modem that went off turns the response into \<open>Unavailable\<close>.\<close>

definition final_response :: "LocationResults \<Rightarrow> bool \<Rightarrow> LocationResults" where
  "final_response response pw = (if \<not> pw \<and> Fixed \<noteq> response then Unavailable else response)"

text \<open>
  The \<open>Acquire\<close> case up to the response: the loop from the start time, the change to
  \<open>Unavailable\<close> when the modem went off, and the time to the first fix. The flag is
  set while it runs and cleared when it is left.
\<close>

definition acquire ::
  "(tm \<Rightarrow> int \<times> tm) \<Rightarrow> 64 word \<Rightarrow> poll list \<Rightarrow> LocationPoint \<Rightarrow> SomLocation
     \<Rightarrow> (LocationResults \<times> LocationPoint \<times> SomLocation) option" where
  "acquire mktime start polls pnt s =
     (case acquire_loop mktime start (ucast (maxFixSeconds (conf s)) * 1000) polls
             \<lparr>eng = s\<lparr>acquiring := True\<rparr>, pt = pnt, fixCount = 0, firstFix = 0\<rparr> of
        None \<Rightarrow> None
      | Some (response, pw, a) \<Rightarrow>
          Some (final_response response pw,
                (if firstFix a \<noteq> 0
                 then (pt a)\<lparr>timeToFirstFix := real (unat (firstFix a - start)) / 1000.0\<rparr>
                 else pt a),
                (eng a)\<lparr>acquiring := False\<rparr>))"

section \<open>A calendar and sample replies for evaluating the parsers\<close>

text \<open>
  The theorems below hold for every \<open>mktime\<close>. To evaluate the parsers on concrete
  replies, \<open>mktime_utc\<close> is the conversion for a device whose time zone is UTC (the
  default when none is set): days are counted in the proleptic Gregorian calendar from
  1970-01-01, out-of-range members carry over, and the structure comes back normalised
  with the day of the week and of the year filled in.
\<close>

definition days_of_shifted :: "int \<Rightarrow> int \<Rightarrow> int" where
  "days_of_shifted y doy =
     (y div 400) * 146097 + (y mod 400 * 365 + y mod 400 div 4 - y mod 400 div 100 + doy) - 719468"

definition days_from_civil :: "int \<Rightarrow> int \<Rightarrow> int \<Rightarrow> int" where
  "days_from_civil y m d =
     days_of_shifted (if m \<le> 2 then y - 1 else y)
       ((153 * (if m > 2 then m - 3 else m + 9) + 2) div 5 + d - 1)"

definition year_of_era :: "int \<Rightarrow> int" where
  "year_of_era doe = (doe - doe div 1460 + doe div 36524 - doe div 146096) div 365"

definition day_of_year :: "int \<Rightarrow> int" where
  "day_of_year doe =
     doe - (365 * year_of_era doe + year_of_era doe div 4 - year_of_era doe div 100)"

definition civil_of_shifted :: "int \<Rightarrow> int \<Rightarrow> int \<Rightarrow> int \<times> int \<times> int" where
  "civil_of_shifted y doy mp =
     (if mp < 10 then (y, mp + 3, doy - (153 * mp + 2) div 5 + 1)
      else (y + 1, mp - 9, doy - (153 * mp + 2) div 5 + 1))"

definition civil_from_days :: "int \<Rightarrow> int \<times> int \<times> int" where
  "civil_from_days z =
     civil_of_shifted
       (year_of_era ((z + 719468) mod 146097) + (z + 719468) div 146097 * 400)
       (day_of_year ((z + 719468) mod 146097))
       ((5 * day_of_year ((z + 719468) mod 146097) + 2) div 153)"

definition utc_seconds :: "tm \<Rightarrow> int" where
  "utc_seconds t =
     (((days_from_civil (1900 + tm_year t + tm_mon t div 12) (tm_mon t mod 12 + 1) 1
          + (tm_mday t - 1)) * 24 + tm_hour t) * 60 + tm_min t) * 60 + tm_sec t"

definition broken_down :: "int \<Rightarrow> int \<times> int \<times> int \<Rightarrow> tm" where
  "broken_down secs ymd =
     (case ymd of (y, m, d) \<Rightarrow>
        \<lparr>tm_sec = secs mod 60, tm_min = secs mod 86400 div 60 mod 60, tm_hour = secs mod 86400 div 3600,
         tm_mday = d, tm_mon = m - 1, tm_year = y - 1900,
         tm_wday = (secs div 86400 + 4) mod 7,
         tm_yday = secs div 86400 - days_from_civil y 1 1, tm_isdst = 0\<rparr>)"

definition mktime_utc :: "tm \<Rightarrow> int \<times> tm" where
  "mktime_utc t = (utc_seconds t, broken_down (utc_seconds t) (civil_from_days (utc_seconds t div 86400)))"

text \<open>
  A position reply of the modem, the same reply cut off after the latitude, a reply
  to a different command, and accuracy replies with a horizontal error of 80 and of 5.2
  metres.
\<close>

definition reply_position :: string where
  "reply_position = ''+QGPSLOC: 061951.000,31.822312,-117.115187,0.7,62.2,3,123.45,36.0,19.4,290224,09''"

definition reply_cut_off :: string where
  "reply_cut_off = ''+QGPSLOC: 061951.000,31.822312''"

definition reply_other :: string where
  "reply_other = ''+CREG: 1,5''"

definition reply_no_fix :: string where
  "reply_no_fix = ''+CME ERROR: 516''"

definition reply_accuracy_poor :: string where
  "reply_accuracy_poor = ''+QGPSCFG: '' @ [CHR 0x22] @ ''estimation_error'' @ [CHR 0x22] @ '',80.0,55.5,0.5,1.0''"

definition reply_accuracy_good :: string where
  "reply_accuracy_good = ''+QGPSCFG: '' @ [CHR 0x22] @ ''estimation_error'' @ [CHR 0x22] @ '',5.2,7.25,0.5,1.0''"

text \<open>
  An object configured with the defaults on a BG95-M5, the state of an attempt that
  starts at time 0 with a zeroed point, and turns of the polling loop: one at a given
  time in which the modem answers the two queries with the given lines, each between
  carriage return and line feed, and one after the 90 seconds have passed.
\<close>

definition engine_bg95 :: SomLocation where
  "engine_bg95 = (SomLocation_init [] [])\<lparr>modemType := BG95_M5, acquiring := True\<rparr>"

definition attempt_start :: acq where
  "attempt_start = \<lparr>eng = engine_bg95, pt = LocationPoint_zero, fixCount = 0, firstFix = 0\<rparr>"

definition crlf :: string where
  "crlf = [CHR 0x0D, CHR 0x0A]"

definition turn :: "64 word \<Rightarrow> string \<Rightarrow> string \<Rightarrow> poll" where
  "turn t loc epe =
     \<lparr>power = True, now = t, loc_reply = [(TYPE_PLUS, crlf @ loc @ crlf, length loc + 4)],
      fix_millis = t + 300, time_now = 1709187591,
      epe_reply = [(TYPE_PLUS, crlf @ epe @ crlf, length epe + 4)]\<rparr>"

definition turn_deadline :: poll where
  "turn_deadline =
     \<lparr>power = True, now = 90000, loc_reply = [], fix_millis = 0, time_now = 0, epe_reply = []\<rparr>"

definition after_turns :: "poll list \<Rightarrow> acq \<Rightarrow> acq" where
  "after_turns ps a = fold (\<lambda>p a. snd (snd (poll_cycle mktime_utc p a))) ps a"

definition turns_poor :: "poll list" where
  "turns_poor =
     [turn 1000 reply_position reply_accuracy_poor, turn 2300 reply_position reply_accuracy_poor]"

definition device_off :: device where
  "device_off = \<lparr>isModemOn = False, celldev = DEV_QUECTEL_BG95_M5, isConnected = True, publishes = True\<rparr>"

definition device_on :: device where
  "device_on = \<lparr>isModemOn = True, celldev = DEV_QUECTEL_BG95_M5, isConnected = True, publishes = True\<rparr>"

definition turns_good :: "poll list" where
  "turns_good =
     [turn 1000 reply_position reply_accuracy_good, turn 2300 reply_position reply_accuracy_good]"

text \<open>What the sample position reply makes of a context and of a point.\<close>

definition ctx_sample :: "QlocContext \<Rightarrow> QlocContext" where
  "ctx_sample c =
     c\<lparr>q_tm_hour := 6, q_tm_min := 19, q_tm_sec := 51,
       q_latitude := 31.822312, q_longitude := - 117.115187, q_hdop := 0.7, q_altitude := 62.2,
       q_fix := 3, q_cogDegrees := 123, q_cogMinutes := 45, q_speedKmph := 36, q_speedKnots := 19.4,
       q_tm_day := 29, q_tm_month := 2, q_tm_year := 24, q_nsat := 9,
       timeinfo := \<lparr>tm_sec = 51, tm_min = 19, tm_hour = 6, tm_mday = 29, tm_mon = 1, tm_year = 124,
                    tm_wday = 4, tm_yday = 59, tm_isdst = 0\<rparr>\<rparr>"

definition pt_sample :: "LocationPoint \<Rightarrow> LocationPoint" where
  "pt_sample pnt =
     pnt\<lparr>epochTime := 1709187591, p_fix := 3, latitude := 31.822312, longitude := - 117.115187,
         altitude := 62.2, speed := 36000, heading := 123.75, horizontalDop := 0.7, satsInUse := 9\<rparr>"

section \<open>Replies in the modem's format\<close>

text \<open>
  The text of a reply in the format the parsers expect, built from its fields, to state
  what the parsers make of every such reply. Numbers of fixed width are written with
  leading zeros; the fractional seconds, the fix flag and the satellite count are digit
  strings; the floating fields are decimal texts: an optional minus sign, digits, a
  point and further digits.
\<close>

definition digit_char :: "nat \<Rightarrow> char" where
  "digit_char d = ''0123456789'' ! d"

definition dec2 :: "nat \<Rightarrow> string" where
  "dec2 n = [digit_char (n div 10), digit_char (n mod 10)]"

definition dec3 :: "nat \<Rightarrow> string" where
  "dec3 n = [digit_char (n div 100), digit_char (n div 10 mod 10), digit_char (n mod 10)]"

definition digits :: "string \<Rightarrow> bool" where
  "digits s \<longleftrightarrow> s \<noteq> [] \<and> list_all isdigit s"

definition decimal :: "string \<Rightarrow> bool" where
  "decimal s \<longleftrightarrow>
     (case s of
        [] \<Rightarrow> False
      | c # cs \<Rightarrow>
          digits (takeWhile isdigit (if c = CHR ''-'' then cs else s))
          \<and> (case dropWhile isdigit (if c = CHR ''-'' then cs else s) of
                [] \<Rightarrow> False
              | p # fd \<Rightarrow> p = CHR ''.'' \<and> list_all isdigit fd))"

text \<open>The number a decimal text denotes.\<close>

definition decimal_value :: "string \<Rightarrow> real" where
  "decimal_value s =
     strtod_value (hd s = CHR ''-'')
       (takeWhile isdigit (if hd s = CHR ''-'' then tl s else s))
       (tl (dropWhile isdigit (if hd s = CHR ''-'' then tl s else s)))"

record position =
  utc_hour :: nat
  utc_min :: nat
  utc_sec :: nat
  utc_frac :: string
  lat_text :: string
  lon_text :: string
  hdop_text :: string
  alt_text :: string
  fix_text :: string
  cog_deg :: nat
  cog_min :: nat
  kmh_text :: string
  knots_text :: string
  date_day :: nat
  date_month :: nat
  date_year :: nat
  nsat_text :: string

definition position_reply :: "position \<Rightarrow> string" where
  "position_reply f =
     ''+QGPSLOC: '' @ dec2 (utc_hour f) @ dec2 (utc_min f) @ dec2 (utc_sec f) @ CHR ''.'' # utc_frac f
       @ CHR '','' # lat_text f @ CHR '','' # lon_text f @ CHR '','' # hdop_text f
       @ CHR '','' # alt_text f @ CHR '','' # fix_text f
       @ CHR '','' # dec3 (cog_deg f) @ CHR ''.'' # dec2 (cog_min f)
       @ CHR '','' # kmh_text f @ CHR '','' # knots_text f
       @ CHR '','' # dec2 (date_day f) @ dec2 (date_month f) @ dec2 (date_year f)
       @ CHR '','' # nsat_text f"

definition well_formed :: "position \<Rightarrow> bool" where
  "well_formed f \<longleftrightarrow>
     utc_hour f < 100 \<and> utc_min f < 100 \<and> utc_sec f < 100
     \<and> digits (utc_frac f) \<and> length (utc_frac f) \<le> 3
     \<and> decimal (lat_text f) \<and> decimal (lon_text f) \<and> decimal (hdop_text f) \<and> decimal (alt_text f)
     \<and> digits (fix_text f)
     \<and> cog_deg f < 1000 \<and> cog_min f < 100
     \<and> decimal (kmh_text f) \<and> decimal (knots_text f)
     \<and> date_day f < 100 \<and> date_month f < 100 \<and> date_year f < 100
     \<and> digits (nsat_text f)"

text \<open>The fields of the sample position reply.\<close>

definition position_sample :: position where
  "position_sample =
     \<lparr>utc_hour = 6, utc_min = 19, utc_sec = 51, utc_frac = ''000'',
      lat_text = ''31.822312'', lon_text = ''-117.115187'', hdop_text = ''0.7'', alt_text = ''62.2'',
      fix_text = ''3'', cog_deg = 123, cog_min = 45, kmh_text = ''36.0'', knots_text = ''19.4'',
      date_day = 29, date_month = 2, date_year = 24, nsat_text = ''09''\<rparr>"

text \<open>
  The fault a device code stands for: the enumerator with that value among the six
  codes the parser knows, and \<open>UNDEFINED\<close> for every other code.
\<close>

definition fault_of_code :: "nat \<Rightarrow> CME_Error" where
  "fault_of_code n =
     (if n = 504 then SESSION_IS_ONGOING
      else if n = 505 then SESSION_NOT_ACTIVE
      else if n = 506 then OPERATION_TIMEOUT
      else if n = 516 then NO_FIX
      else if n = 522 then GNSS_IS_WORKING
      else if n = 549 then UNKNOWN_ERROR
      else UNDEFINED)"

text \<open>
  Where a text stands with respect to the pattern \<open>+CME ERROR: <code>\<close> read from its
  start, with white space allowed before each of the three parts. A code begins with a
  digit, or with a sign and a digit. The text departs before a code when it differs from
  \<open>+CME\<close> at some character, or goes on after \<open>+CME\<close> with something that differs
  from \<open>ERROR:\<close> at some character, or goes on after \<open>ERROR:\<close> with a character
  that does not begin a code. The text begins with the pattern when all three parts are
  there. A text that ends inside the pattern is neither.
\<close>

definition begins_code :: "string \<Rightarrow> bool" where
  "begins_code t \<longleftrightarrow>
     (case t of
        [] \<Rightarrow> False
      | c # cs \<Rightarrow> isdigit c \<or> ((c = CHR ''-'' \<or> c = CHR ''+'') \<and> cs \<noteq> [] \<and> isdigit (hd cs)))"

definition departs_before_code :: "string \<Rightarrow> bool" where
  "departs_before_code buf \<longleftrightarrow>
     (let a = skip_ws buf;
          b = skip_ws (drop (length ''+CME'') a);
          c = skip_ws (drop (length ''ERROR:'') b)
      in (\<not> prefix ''+CME'' a \<and> \<not> prefix a ''+CME'')
         \<or> (prefix ''+CME'' a \<and> \<not> prefix ''ERROR:'' b \<and> \<not> prefix b ''ERROR:'')
         \<or> (prefix ''+CME'' a \<and> prefix ''ERROR:'' b \<and> c \<noteq> [] \<and> \<not> begins_code c))"

definition begins_pattern :: "string \<Rightarrow> bool" where
  "begins_pattern buf \<longleftrightarrow>
     (let a = skip_ws buf;
          b = skip_ws (drop (length ''+CME'') a);
          c = skip_ws (drop (length ''ERROR:'') b)
      in prefix ''+CME'' a \<and> prefix ''ERROR:'' b \<and> begins_code c)"

section \<open>Evaluating the parsers on the sample replies\<close>

lemmas scan_defs = sscanf_def isspace_def isdigit_def skip_ws_def convert_def stored_def suppressed_def
  scan_uint_def scan_float_def window_def scan_sign_def strtoul_value_def strtod_value_def
  nat_of_digits_def digit_val_def input_failure_def EOF_def

lemmas cal_defs = mktime_utc_def days_from_civil_def civil_from_days_def utc_seconds_def broken_down_def
  days_of_shifted_def year_of_era_def day_of_year_def civil_of_shifted_def

lemma cme_position: "parseCmeError reply_position = NONE"
  by (simp add: parseCmeError_def scan_defs reply_position_def)

lemma cme_no_fix: "parseCmeError reply_no_fix = NO_FIX"
  by (simp add: parseCmeError_def scan_defs reply_no_fix_def)

lemma cme_other: "parseCmeError reply_other = NONE"
  by (simp add: parseCmeError_def scan_defs reply_other_def)

lemma cme_cut_off: "parseCmeError reply_cut_off = NONE"
  by (simp add: parseCmeError_def scan_defs reply_cut_off_def)

lemma cme_accuracy:
  "parseCmeError reply_accuracy_poor = NONE"
  "parseCmeError reply_accuracy_good = NONE"
  by (simp_all add: parseCmeError_def scan_defs reply_accuracy_poor_def reply_accuracy_good_def)

lemma scan_position:
  "sscanf reply_position qloc_format qloc_args c =
     (16, c\<lparr>q_tm_hour := 6, q_tm_min := 19, q_tm_sec := 51,
            q_latitude := 31.822312, q_longitude := - 117.115187, q_hdop := 0.7, q_altitude := 62.2,
            q_fix := 3, q_cogDegrees := 123, q_cogMinutes := 45, q_speedKmph := 36,
            q_speedKnots := 19.4, q_tm_day := 29, q_tm_month := 2, q_tm_year := 24, q_nsat := 9\<rparr>)"
  by (simp add: scan_defs reply_position_def qloc_format_def qloc_args_def)

lemma scan_cut_off:
  "sscanf reply_cut_off qloc_format qloc_args c =
     (4, c\<lparr>q_tm_hour := 6, q_tm_min := 19, q_tm_sec := 51, q_latitude := 31.822312\<rparr>)"
  by (simp add: scan_defs reply_cut_off_def qloc_format_def qloc_args_def)

lemma scan_other: "sscanf reply_other qloc_format qloc_args c = (0, c)"
  by (simp add: scan_defs reply_other_def qloc_format_def qloc_args_def)

lemma scan_accuracy:
  "sscanf reply_accuracy_poor epe_format epe_args c =
     (4, c\<lparr>h_acc := 80, v_acc := 55.5, speed_acc := 0.5, head_acc := 1\<rparr>)"
  "sscanf reply_accuracy_good epe_format epe_args c =
     (4, c\<lparr>h_acc := 5.2, v_acc := 7.25, speed_acc := 0.5, head_acc := 1\<rparr>)"
  by (simp_all add: scan_defs reply_accuracy_poor_def reply_accuracy_good_def epe_format_def epe_args_def)

lemma mktime_sample:
  "mktime_utc (t\<lparr>tm_year := 124, tm_mon := 1, tm_mday := 29, tm_hour := 6, tm_min := 19, tm_sec := 51\<rparr>) =
     (1709187591,
      \<lparr>tm_sec = 51, tm_min = 19, tm_hour = 6, tm_mday = 29, tm_mon = 1, tm_year = 124,
       tm_wday = 4, tm_yday = 59, tm_isdst = 0\<rparr>)"
  by (simp add: cal_defs)

lemma mktime_cut_off:
  "mktime_utc (t\<lparr>tm_year := 100, tm_mon := - 1, tm_mday := 0, tm_hour := 6, tm_min := 19, tm_sec := 51\<rparr>) =
     (943942791,
      \<lparr>tm_sec = 51, tm_min = 19, tm_hour = 6, tm_mday = 30, tm_mon = 10, tm_year = 99,
       tm_wday = 2, tm_yday = 333, tm_isdst = 0\<rparr>)"
  by (simp add: cal_defs)

lemma init_sel:
  "q_tm_hour QlocContext_init = 0" "q_tm_min QlocContext_init = 0" "q_tm_sec QlocContext_init = 0"
  "q_tm_day QlocContext_init = 0" "q_tm_month QlocContext_init = 0" "q_tm_year QlocContext_init = 0"
  "q_latitude QlocContext_init = 0" "q_longitude QlocContext_init = 0" "q_fix QlocContext_init = 0"
  "q_hdop QlocContext_init = 0" "q_altitude QlocContext_init = 0" "q_cogDegrees QlocContext_init = 0"
  "q_cogMinutes QlocContext_init = 0" "q_speedKmph QlocContext_init = 0"
  "q_speedKnots QlocContext_init = 0" "q_nsat QlocContext_init = 0"
  by (simp_all add: QlocContext_init_def)

lemma parseQloc_position:
  "parseQloc mktime_utc reply_position c pnt = (0, ctx_sample c, pt_sample pnt)"
  by (simp add: parseQloc_def scan_position mktime_sample ctx_sample_def pt_sample_def)

lemma callbacks:
  "fold glocCallback (loc_reply (turn t reply_position epe)) buf = reply_position"
  "fold glocCallback (loc_reply (turn t reply_no_fix epe)) buf = reply_no_fix"
  "fold epeCallback (epe_reply (turn t loc reply_accuracy_poor)) buf = reply_accuracy_poor"
  "fold epeCallback (epe_reply (turn t loc reply_accuracy_good)) buf = reply_accuracy_good"
  by (simp_all add: turn_def glocCallback_def epeCallback_def strlcpy_def stripLfCr_def crlf_def
      reply_position_def reply_no_fix_def reply_accuracy_poor_def reply_accuracy_good_def)

lemma position_turn:
  "poll_position mktime_utc (turn t reply_position epe) a =
     (FIX, a\<lparr>eng := (eng a)\<lparr>locBuffer := reply_position,
                              qlocContext := ctx_sample (qlocContext (eng a))\<rparr>,
             pt := pt_sample (pt a)\<rparr>)"
  by (simp add: poll_position_def callbacks parseQlocResponse_def cme_position parseQloc_position)

lemma no_fix_turn:
  "poll_position mktime_utc (turn t reply_no_fix epe) a =
     (NO_FIX, a\<lparr>eng := (eng a)\<lparr>locBuffer := reply_no_fix\<rparr>, pt := (pt a)\<lparr>p_fix := 0\<rparr>\<rparr>)"
  by (simp add: poll_position_def callbacks parseQlocResponse_def cme_no_fix)

lemma accuracy_turn:
  "modemType (eng a) = BG95_M5 \<Longrightarrow>
     poll_accuracy (turn t loc reply_accuracy_poor) a =
       a\<lparr>eng := (eng a)\<lparr>epeBuffer := reply_accuracy_poor,
                          epeContext := (epeContext (eng a))
                            \<lparr>h_acc := 80, v_acc := 55.5, speed_acc := 0.5, head_acc := 1\<rparr>\<rparr>,
         pt := (pt a)\<lparr>horizontalAccuracy := 80, verticalAccuracy := 55.5\<rparr>\<rparr>"
  "modemType (eng a) = BG95_M5 \<Longrightarrow>
     poll_accuracy (turn t loc reply_accuracy_good) a =
       a\<lparr>eng := (eng a)\<lparr>epeBuffer := reply_accuracy_good,
                          epeContext := (epeContext (eng a))
                            \<lparr>h_acc := 5.2, v_acc := 7.25, speed_acc := 0.5, head_acc := 1\<rparr>\<rparr>,
         pt := (pt a)\<lparr>horizontalAccuracy := 5.2, verticalAccuracy := 7.25\<rparr>\<rparr>"
  by (simp_all add: poll_accuracy_def callbacks parseEpeResponse_def cme_accuracy scan_accuracy)

lemma turn_sel:
  "power (turn t l e) = True"
  "now (turn t l e) = t"
  "fix_millis (turn t l e) = t + 300"
  "time_now (turn t l e) = 1709187591"
  by (simp_all add: turn_def)

lemmas turn_simps = turn_sel poll_cycle_def position_turn no_fix_turn accuracy_turn count_fix_def
  stop_test_def LOCATION_REQUIRED_SETTLING_COUNT_def after_turns_def turns_poor_def turns_good_def
  attempt_start_def engine_bg95_def SomLocation_init_def LocationConfiguration_default_def
  LocationHdopDefault_def LocationHaccDefault_def LocationFixTimeDefault_def pt_sample_def
  LocationPoint_zero_def turn_deadline_def

section \<open>The polling loop\<close>

lemma poll_cycle_count:
  "poll_cycle mk p a = (stop, ret, b) \<Longrightarrow>
     fixCount b = (if ret = FIX then fixCount a + 1 else fixCount a)"
  by (auto simp: poll_cycle_def poll_position_def count_fix_def poll_accuracy_def
      split: prod.splits if_splits)

lemma poll_cycle_stop:
  "poll_cycle mk p a = (stop, ret, b) \<Longrightarrow>
     stop = (ret = FIX \<and> fixCount b = 2
             \<and> horizontalDop (pt b) \<le> real_of_int (hdop_thr (conf (eng b)))
             \<and> horizontalAccuracy (pt b) \<le> hacc_thr (conf (eng b)))"
  by (auto simp: poll_cycle_def stop_test_def LOCATION_REQUIRED_SETTLING_COUNT_def split: prod.splits)

lemma loop_fixed_from_cycle:
  "acquire_loop mk start maxTime qs a = Some (Fixed, pw, b) \<Longrightarrow>
     \<exists>q a0. q \<in> set qs \<and> poll_cycle mk q a0 = (True, FIX, b)"
proof (induction qs arbitrary: a)
  case Nil
  then show ?case by simp
next
  case (Cons q qs)
  show ?case
  proof (cases "\<not> power q \<or> maxTime \<le> now q - start")
    case True
    with Cons.prems show ?thesis by (auto split: if_splits)
  next
    case False
    then have g: "power q" "(maxTime \<le> now q - start) = False" by auto
    obtain stop ret a' where c: "poll_cycle mk q a = (stop, ret, a')"
      by (cases "poll_cycle mk q a") auto
    show ?thesis
    proof (cases stop)
      case True
      with c Cons.prems have "b = a'" by (simp add: g)
      moreover from True c have "ret = FIX" using poll_cycle_stop [OF c] by simp
      ultimately show ?thesis using c True by auto
    next
      case stop: False
      with c Cons.prems have "acquire_loop mk start maxTime qs a' = Some (Fixed, pw, b)"
        by (simp add: g)
      from Cons.IH [OF this] show ?thesis by auto
    qed
  qed
qed

lemma loop_past_settling:
  "2 < fixCount a \<Longrightarrow> acquire_loop mk start maxTime ps a = Some (r, pw, b) \<Longrightarrow> r = TimedOut"
proof (induction ps arbitrary: a)
  case Nil
  then show ?case by simp
next
  case (Cons p ps)
  show ?case
  proof (cases "\<not> power p \<or> maxTime \<le> now p - start")
    case True
    with Cons.prems show ?thesis by (auto split: if_splits)
  next
    case False
    obtain stop ret a' where c: "poll_cycle mk p a = (stop, ret, a')"
      by (cases "poll_cycle mk p a") auto
    from poll_cycle_count [OF c] Cons.prems(1) have n: "2 < fixCount a'" by (simp split: if_splits)
    with poll_cycle_stop [OF c] have "\<not> stop" by simp
    moreover from False have g: "power p" "(maxTime \<le> now p - start) = False" by auto
    ultimately have "acquire_loop mk start maxTime ps a' = Some (r, pw, b)"
      using c Cons.prems(2) by (simp add: g)
    from Cons.IH [OF n this] show ?thesis .
  qed
qed

lemma loop_ends:
  "2 < fixCount a \<Longrightarrow> \<exists>p\<in>set ps. \<not> power p \<or> maxTime \<le> now p - start \<Longrightarrow>
     \<exists>pw b. acquire_loop mk start maxTime ps a = Some (TimedOut, pw, b)"
proof (induction ps arbitrary: a)
  case Nil
  then show ?case by simp
next
  case (Cons p ps)
  show ?case
  proof (cases "\<not> power p \<or> maxTime \<le> now p - start")
    case True
    then show ?thesis by auto
  next
    case False
    obtain stop ret a' where c: "poll_cycle mk p a = (stop, ret, a')"
      by (cases "poll_cycle mk p a") auto
    from poll_cycle_count [OF c] Cons.prems(1) have n: "2 < fixCount a'" by (simp split: if_splits)
    with poll_cycle_stop [OF c] have s: "\<not> stop" by simp
    from False Cons.prems(2) have "\<exists>p\<in>set ps. \<not> power p \<or> maxTime \<le> now p - start" by auto
    from Cons.IH [OF n this] obtain pw b where "acquire_loop mk start maxTime ps a' = Some (TimedOut, pw, b)"
      by blast
    moreover from False have g: "power p" "(maxTime \<le> now p - start) = False" by auto
    ultimately show ?thesis using c s by (simp add: g)
  qed
qed

text \<open>
  C1, as amended. A turn of the loop whose decoding returned \<open>FIX\<close>, in which the fix
  counter after the increment is 2 and the point's horizontal dilution of precision and
  horizontal accuracy are at most the configured thresholds (equality included), ends
  the attempt with \<open>Fixed\<close>. And the loop ends with \<open>Fixed\<close> only in a turn whose
  decoding returned \<open>FIX\<close>, with the counter at least 2 and both thresholds met.
\<close>

theorem fixed_stop_amended:
  "(power p \<and> now p - start < maxTime \<and> poll_cycle mk p a = (stop, FIX, a') \<and> fixCount a' = 2
      \<and> horizontalDop (pt a') \<le> real_of_int (hdop_thr (conf (eng a')))
      \<and> horizontalAccuracy (pt a') \<le> hacc_thr (conf (eng a'))
      \<longrightarrow> acquire_loop mk start maxTime (p # ps) a = Some (Fixed, True, a'))
   \<and> (acquire_loop mk start maxTime qs a = Some (Fixed, pw, b)
      \<longrightarrow> (\<exists>q a0. q \<in> set qs \<and> poll_cycle mk q a0 = (True, FIX, b))
          \<and> 2 \<le> fixCount b
          \<and> horizontalDop (pt b) \<le> real_of_int (hdop_thr (conf (eng b)))
          \<and> horizontalAccuracy (pt b) \<le> hacc_thr (conf (eng b)))"
proof (intro conjI impI)
  assume h: "power p \<and> now p - start < maxTime \<and> poll_cycle mk p a = (stop, FIX, a') \<and> fixCount a' = 2
      \<and> horizontalDop (pt a') \<le> real_of_int (hdop_thr (conf (eng a')))
      \<and> horizontalAccuracy (pt a') \<le> hacc_thr (conf (eng a'))"
  then have c: "poll_cycle mk p a = (stop, FIX, a')" by simp
  from poll_cycle_stop [OF c] h have "stop" by simp
  moreover from h have "(maxTime \<le> now p - start) = False" by auto
  ultimately show "acquire_loop mk start maxTime (p # ps) a = Some (Fixed, True, a')"
    using h c by simp
next
  assume f: "acquire_loop mk start maxTime qs a = Some (Fixed, pw, b)"
  from loop_fixed_from_cycle [OF f] obtain q a0 where q: "q \<in> set qs" "poll_cycle mk q a0 = (True, FIX, b)"
    by blast
  then show "\<exists>q a0. q \<in> set qs \<and> poll_cycle mk q a0 = (True, FIX, b)" by blast
  from poll_cycle_stop [OF q(2)]
  show "2 \<le> fixCount b" "horizontalDop (pt b) \<le> real_of_int (hdop_thr (conf (eng b)))"
    "horizontalAccuracy (pt b) \<le> hacc_thr (conf (eng b))" by simp_all
qed

text \<open>
  The amended statement at work: after one good position, a second one with a
  horizontal error of 5.2 m and a dilution of 0.7 ends the attempt with \<open>Fixed\<close>.
\<close>

theorem fixed_stop_amended_witness:
  "acquire_loop mktime_utc 0 90000 [turn 2300 reply_position reply_accuracy_good]
       (after_turns [turn 1000 reply_position reply_accuracy_good] attempt_start)
     = Some (Fixed, True, after_turns turns_good attempt_start)
   \<and> fixCount (after_turns turns_good attempt_start) = 2
   \<and> horizontalDop (pt (after_turns turns_good attempt_start)) = 0.7
   \<and> horizontalAccuracy (pt (after_turns turns_good attempt_start)) = 5.2
   \<and> hdop_thr (conf (eng (after_turns turns_good attempt_start))) = 100
   \<and> hacc_thr (conf (eng (after_turns turns_good attempt_start))) = 50"
  using fixed_stop_amended [of "turn 2300 reply_position reply_accuracy_good" 0 90000 mktime_utc
      "after_turns [turn 1000 reply_position reply_accuracy_good] attempt_start" True
      "after_turns turns_good attempt_start" "[]"]
  by (simp add: turn_simps)

text \<open>
  C1 as the claim states it fails. Two positions with a horizontal error of 80 m bring
  the counter to 2; in the third turn the modem reports no fix while the accuracy reply
  brings the error down to 5.2 m. The counter is 2, the dilution 0.7 is within the
  threshold 100 and the accuracy 5.2 within 50, yet the turn does not stop the loop, and
  the attempt times out.
\<close>

theorem fixed_stop_counterexample:
  "2 \<le> fixCount (after_turns (turns_poor @ [turn 3600 reply_no_fix reply_accuracy_good]) attempt_start)
   \<and> horizontalDop (pt (after_turns (turns_poor @ [turn 3600 reply_no_fix reply_accuracy_good]) attempt_start))
       \<le> real_of_int (hdop_thr (conf (eng (after_turns (turns_poor @ [turn 3600 reply_no_fix reply_accuracy_good]) attempt_start))))
   \<and> horizontalAccuracy (pt (after_turns (turns_poor @ [turn 3600 reply_no_fix reply_accuracy_good]) attempt_start))
       \<le> hacc_thr (conf (eng (after_turns (turns_poor @ [turn 3600 reply_no_fix reply_accuracy_good]) attempt_start)))
   \<and> \<not> fst (poll_cycle mktime_utc (turn 3600 reply_no_fix reply_accuracy_good) (after_turns turns_poor attempt_start))
   \<and> map_option fst (acquire_loop mktime_utc 0 90000
        (turns_poor @ [turn 3600 reply_no_fix reply_accuracy_good, turn_deadline]) attempt_start)
      = Some TimedOut"
  by (simp add: turn_simps)

text \<open>
  C6. Once the fix counter is greater than 2, the loop never ends with \<open>Fixed\<close>: when
  it ends, its response is \<open>TimedOut\<close>, which the modem being off turns into
  \<open>Unavailable\<close>. And it does end, with that response, as soon as a turn finds the
  modem off or the time used up.
\<close>

theorem never_fixed_past_settling:
  assumes "2 < fixCount a"
  shows "(acquire_loop mk start maxTime ps a = Some (r, pw, b)
           \<longrightarrow> r = TimedOut \<and> final_response r pw \<noteq> Fixed
               \<and> (final_response r pw = TimedOut \<or> final_response r pw = Unavailable))
         \<and> ((\<exists>p\<in>set ps. \<not> power p \<or> maxTime \<le> now p - start)
           \<longrightarrow> (\<exists>pw b. acquire_loop mk start maxTime ps a = Some (TimedOut, pw, b)))"
  using loop_past_settling [OF assms, of mk start maxTime ps r pw b]
    loop_ends [OF assms, of ps maxTime start mk]
  by (auto simp: final_response_def)

text \<open>
  An attempt in which this happens: two positions with a horizontal error of 80 m,
  then positions with an error of 5.2 m. The counter is 3 after the third turn, the
  fourth turn meets both thresholds, and the attempt times out.
\<close>

theorem never_fixed_past_settling_witness:
  "2 < fixCount (after_turns (turns_poor @ [turn 3600 reply_position reply_accuracy_good]) attempt_start)
   \<and> horizontalAccuracy (pt (after_turns (turns_poor @ [turn 3600 reply_position reply_accuracy_good,
         turn 4900 reply_position reply_accuracy_good]) attempt_start)) = 5.2
   \<and> horizontalDop (pt (after_turns (turns_poor @ [turn 3600 reply_position reply_accuracy_good,
         turn 4900 reply_position reply_accuracy_good]) attempt_start)) = 0.7
   \<and> (\<exists>pw b. acquire_loop mktime_utc 0 90000 [turn 4900 reply_position reply_accuracy_good, turn_deadline]
         (after_turns (turns_poor @ [turn 3600 reply_position reply_accuracy_good]) attempt_start)
       = Some (TimedOut, pw, b))"
  using never_fixed_past_settling [of
      "after_turns (turns_poor @ [turn 3600 reply_position reply_accuracy_good]) attempt_start"
      mktime_utc 0 90000 "[turn 4900 reply_position reply_accuracy_good, turn_deadline]"]
  by (simp add: turn_simps)

section \<open>Configuration\<close>

lemma detect_conf: "conf (snd (detectModemType d s)) = conf s"
  by (simp add: detectModemType_def split: CellularDevice.split)

lemma detect_queue: "commandQueue (snd (detectModemType d s)) = commandQueue s"
  by (simp add: detectModemType_def split: CellularDevice.split)

lemma detect_acquiring: "acquiring (snd (detectModemType d s)) = acquiring s"
  by (simp add: detectModemType_def split: CellularDevice.split)

lemma begin_hacc: "hacc_thr (conf (snd (SomLocation_begin d c s))) = hacc_thr (conf s)"
  by (simp add: SomLocation_begin_def Let_def detect_conf assign_conf_def)

lemma begin_copied:
  "constellations (conf (snd (SomLocation_begin d c s))) = constellations c"
  "antennaPin (conf (snd (SomLocation_begin d c s))) = antennaPin c"
  "hdop_thr (conf (snd (SomLocation_begin d c s))) = hdop_thr c"
  "maxFixSeconds (conf (snd (SomLocation_begin d c s))) = maxFixSeconds c"
  by (simp_all add: SomLocation_begin_def Let_def detect_conf assign_conf_def)

text \<open>
  C2, on the code. A caller sets the accuracy threshold to 10 m and passes the
  configuration to \<open>begin\<close> on a fresh object: the threshold the object then holds is
  the default of 50 m, whatever the device. The other four options are stored
  (\<open>begin_copied\<close>); the assignment operator leaves the accuracy threshold out.
\<close>

theorem begin_drops_accuracy_threshold:
  "hacc_thr (haccThreshold 10 LocationConfiguration_default) = 10
   \<and> hacc_thr (conf (snd (SomLocation_begin d (haccThreshold 10 LocationConfiguration_default)
                             (SomLocation_init loc epe)))) = 50"
  by (simp add: begin_hacc haccThreshold_def SomLocation_init_def LocationConfiguration_default_def
      LocationHaccDefault_def)

section \<open>The decoded position\<close>

text \<open>
  C3, on the code. The line \<open>+CREG: 1,5\<close> carries no error code and is no position:
  \<open>parseQloc\<close> fails on it with -1 and changes nothing, and \<open>parseQlocResponse\<close>
  returns \<open>FIX\<close> all the same.
\<close>

theorem parseQlocResponse_fix_on_failed_parse:
  "parseQloc mk reply_other c pnt = (- 1, c, pnt)
   \<and> parseQlocResponse mk reply_other c pnt = (FIX, c, pnt)"
  by (simp add: parseQlocResponse_def parseQloc_def cme_other scan_other)

text \<open>
  C7, on the code. The sample reply gives a speed of 36.0 km/h, which is 10 m/s; the
  point's speed becomes 36000.
\<close>

theorem parseQloc_speed_times_1000:
  "fst (parseQloc mk reply_position c pnt) = 0
   \<and> q_speedKmph (fst (snd (parseQloc mk reply_position c pnt))) = 36
   \<and> speed (snd (snd (parseQloc mk reply_position c pnt))) = 36000"
  by (simp add: parseQloc_def scan_position split_beta Let_def)

section \<open>Requests while an attempt is running\<close>

text \<open>
  C8, as amended. While the acquiring flag is set, a call of either overload returns at
  once with \<open>Pending\<close>, \<open>Unavailable\<close> or \<open>Unsupported\<close> and leaves the command queue
  as it is, so that no second attempt is queued or started. It returns \<open>Pending\<close>, and
  changes nothing in the object, when the modem is on and its type has been detected;
  it returns \<open>Unavailable\<close> when the modem is off.
\<close>

theorem single_flight_amended:
  assumes "acquiring s"
  shows "commandQueue (snd (getLocation_async d addr cb pub s)) = commandQueue s
     \<and> fst (getLocation_async d addr cb pub s) \<in> {Pending, Unavailable, Unsupported}
     \<and> (\<exists>r s'. getLocation d arrival addr pub s = Some (r, 0, s') \<and> commandQueue s' = commandQueue s
           \<and> r \<in> {Pending, Unavailable, Unsupported})
     \<and> (isModemOn d \<and> modemType s \<noteq> MT_Unavailable
          \<longrightarrow> getLocation_async d addr cb pub s = (Pending, s)
              \<and> getLocation d arrival addr pub s = Some (Pending, 0, s))
     \<and> (\<not> isModemOn d
          \<longrightarrow> getLocation_async d addr cb pub s = (Unavailable, s)
              \<and> getLocation d arrival addr pub s = Some (Unavailable, 0, s))"
proof -
  obtain ok s1 where d: "detectModemType d s = (ok, s1)" by (cases "detectModemType d s") auto
  have s1: "commandQueue s1 = commandQueue s" "acquiring s1"
    using detect_queue [of d s] detect_acquiring [of d s] d assms by simp_all
  show ?thesis
    using assms s1 d
    by (auto simp: getLocation_async_def getLocation_def modemNotDetected_def
        split: prod.splits if_splits)
qed

theorem single_flight_amended_witness:
  "acquiring engine_bg95
   \<and> getLocation_async device_on 7 (Some 1) True engine_bg95 = (Pending, engine_bg95)
   \<and> getLocation device_on (Some (5, Fixed)) 7 True engine_bg95 = Some (Pending, 0, engine_bg95)
   \<and> commandQueue engine_bg95 = []"
  using single_flight_amended [of engine_bg95 device_on 7 "Some 1" True "Some (5, Fixed)"]
  by (simp add: engine_bg95_def device_on_def SomLocation_init_def)

text \<open>
  C8 as the claim states it fails: with the flag set and the modem off, both overloads
  return \<open>Unavailable\<close>, not \<open>Pending\<close>.
\<close>

theorem single_flight_counterexample:
  "acquiring engine_bg95
   \<and> getLocation_async device_off 7 (Some 1) True engine_bg95 = (Unavailable, engine_bg95)
   \<and> getLocation device_off None 7 True engine_bg95 = Some (Unavailable, 0, engine_bg95)"
  by (simp add: engine_bg95_def device_off_def getLocation_async_def getLocation_def)

section \<open>The blocking wait\<close>

lemma timeout_not_forever:
  "(m * 1000 + LOCATION_PERIOD_ACQUIRE_MS :: 32 word) \<noteq> CONCURRENT_WAIT_FOREVER"
proof
  assume e: "m * 1000 + LOCATION_PERIOD_ACQUIRE_MS = CONCURRENT_WAIT_FOREVER"
  have "even (m * 1000 + LOCATION_PERIOD_ACQUIRE_MS :: 32 word)"
    by (simp add: LOCATION_PERIOD_ACQUIRE_MS_def)
  moreover have "odd (CONCURRENT_WAIT_FOREVER :: 32 word)"
    by (simp add: CONCURRENT_WAIT_FOREVER_def)
  ultimately show False using e by simp
qed

lemma timeout_le: "unat (m * 1000 + LOCATION_PERIOD_ACQUIRE_MS :: 32 word) \<le> unat m * 1000 + 1000"
proof -
  have "unat (m * 1000 + 1000 :: 32 word) \<le> unat (m * 1000) + unat (1000 :: 32 word)"
    by (simp add: unat_word_ariths)
  also have "unat (m * 1000) \<le> unat m * unat (1000 :: 32 word)"
    by (simp add: unat_word_ariths)
  finally show ?thesis by (simp add: LOCATION_PERIOD_ACQUIRE_MS_def)
qed

lemma take_waited:
  "timeout \<noteq> CONCURRENT_WAIT_FOREVER \<Longrightarrow>
     \<exists>r w. waitOnResponseEvent arrival timeout = Some (r, w) \<and> w \<le> unat timeout
       \<and> ((case arrival of None \<Rightarrow> True | Some (t, x) \<Rightarrow> unat timeout < t) \<longrightarrow> r = Idle)"
  by (auto simp: waitOnResponseEvent_def os_queue_take_def split: option.splits prod.splits)

text \<open>
  C10. A blocking call that passes its checks (modem on, modem type detected or
  detected now as a BG95-M5, no attempt running) returns, after waiting at most the
  maximum fix time in milliseconds plus the poll interval of 1000 ms. When no response
  arrives within the timeout it passes to the queue, it returns \<open>Idle\<close>. The timeout is
  computed in 32 bits; it is never the value that waits without bound.
\<close>

theorem blocking_wait_bounded:
  assumes "isModemOn d" and "modemType s \<noteq> MT_Unavailable \<or> celldev d = DEV_QUECTEL_BG95_M5"
    and "\<not> acquiring s"
  shows "\<exists>r waited s'. getLocation d arrival addr pub s = Some (r, waited, s')
           \<and> waited \<le> unat (maxFixSeconds (conf s)) * 1000 + 1000
           \<and> ((case arrival of None \<Rightarrow> True
                | Some (t, x) \<Rightarrow> unat (maxFixSeconds (conf s) * 1000 + LOCATION_PERIOD_ACQUIRE_MS) < t)
               \<longrightarrow> r = Idle)"
proof -
  define s1 where "s1 = (if modemNotDetected s then snd (detectModemType d s) else s)"
  have det: "(if modemNotDetected s then detectModemType d s else (True, s)) = (True, s1)"
    using assms(1,2) by (auto simp: s1_def detectModemType_def modemNotDetected_def)
  have c1: "conf s1 = conf s" and a1: "\<not> acquiring s1"
    using assms(3) by (simp_all add: s1_def detect_conf detect_acquiring)
  let ?t = "maxFixSeconds (conf s) * 1000 + LOCATION_PERIOD_ACQUIRE_MS"
  from take_waited [OF timeout_not_forever, of arrival "maxFixSeconds (conf s)"]
  obtain r w where w: "waitOnResponseEvent arrival ?t = Some (r, w)" "w \<le> unat ?t"
    "(case arrival of None \<Rightarrow> True | Some (t, x) \<Rightarrow> unat ?t < t) \<longrightarrow> r = Idle"
    by blast
  from w(2) timeout_le [of "maxFixSeconds (conf s)"]
  have b: "w \<le> unat (maxFixSeconds (conf s)) * 1000 + 1000"
    by simp
  show ?thesis
    using assms(1) det c1 a1 w(1,3) b
    by (auto simp: getLocation_def Let_def)
qed

text \<open>
  With the default 90 seconds: no response at all, and a response after 91001 ms, both
  end the wait after 91000 ms with \<open>Idle\<close>; a response after 40 seconds is returned.
\<close>

theorem blocking_wait_bounded_witness:
  "(\<exists>s'. getLocation device_on None 7 False (engine_bg95\<lparr>acquiring := False\<rparr>) = Some (Idle, 91000, s'))
   \<and> (\<exists>s'. getLocation device_on (Some (91001, Fixed)) 7 False (engine_bg95\<lparr>acquiring := False\<rparr>)
          = Some (Idle, 91000, s'))
   \<and> (\<exists>s'. getLocation device_on (Some (40000, TimedOut)) 7 False (engine_bg95\<lparr>acquiring := False\<rparr>)
          = Some (TimedOut, 40000, s'))"
  using blocking_wait_bounded [of device_on "engine_bg95\<lparr>acquiring := False\<rparr>" None 7 False]
  by (simp add: getLocation_def waitOnResponseEvent_def os_queue_take_def engine_bg95_def
      device_on_def SomLocation_init_def LocationConfiguration_default_def LocationFixTimeDefault_def
      LOCATION_PERIOD_ACQUIRE_MS_def CONCURRENT_WAIT_FOREVER_def modemNotDetected_def Let_def)

section \<open>What the scan does in general\<close>

lemma convert_go:
  "convert star w k args s n c = Go args' rest n' c' \<Longrightarrow> (n' = n \<and> c' = c) \<or> n' = Suc n"
  by (auto simp: convert_def stored_def suppressed_def
      split: if_splits conv.splits list.splits arg.splits scanned.splits)

lemma convert_return:
  "convert star w k args s n c = Return r c' \<Longrightarrow> c' = c \<and> (r = int n \<or> r = input_failure n)"
  by (auto simp: convert_def stored_def suppressed_def
      split: if_splits conv.splits list.splits arg.splits scanned.splits)

lemma scan_run_counts:
  "scan_run ds args s n c = (r, c') \<Longrightarrow> (0 < n \<longrightarrow> int n \<le> r) \<and> (r = 0 \<longrightarrow> c' = c)"
proof (induction ds args s n c rule: scan_run.induct)
  case (1 args s n c)
  then show ?case by auto
next
  case (2 ds args s n c)
  then show ?case by simp
next
  case (3 x ds args s n c)
  then show ?case by (auto simp: input_failure_def EOF_def split: list.splits if_splits)
next
  case (4 star w k ds args s n c)
  show ?case
  proof (cases "convert star w k args s n c")
    case (Go args' rest n' c'')
    with 4 have ih: "(0 < n' \<longrightarrow> int n' \<le> r) \<and> (r = 0 \<longrightarrow> c' = c'')" by simp
    from convert_go [OF Go] show ?thesis using ih by auto
  next
    case (Return r' c'')
    with 4 have "r = r'" "c' = c''" by simp_all
    with convert_return [OF Return] show ?thesis by (auto simp: input_failure_def EOF_def)
  qed
next
  case (5 ds args s n c)
  then show ?case by auto
qed

lemma sscanf_zero: "fst (sscanf buf fmt args c) = 0 \<Longrightarrow> sscanf buf fmt args c = (0, c)"
  using scan_run_counts [of "parse_format Plain fmt" args buf 0 c]
  by (cases "sscanf buf fmt args c") (auto simp: sscanf_def)

lemma literal_mismatch:
  "\<not> prefix lit t \<Longrightarrow> \<not> prefix t lit \<Longrightarrow> scan_run (map Literal lit @ ds) args t n c = (int n, c)"
proof (induction lit arbitrary: t)
  case Nil
  then show ?case by simp
next
  case (Cons x xs)
  then show ?case by (cases t) auto
qed

lemma qloc_directives:
  "parse_format Plain qloc_format =
     White # map Literal ''+QGPSLOC:'' @
     [White, Conv False (Some 2) ConvU, Conv False (Some 2) ConvU, Conv False (Some 2) ConvU,
      Literal CHR ''.'', Conv True (Some 3) ConvU,
      Literal CHR '','', Conv False None ConvLF, Literal CHR '','', Conv False None ConvLF,
      Literal CHR '','', Conv False None ConvF, Literal CHR '','', Conv False None ConvF,
      Literal CHR '','', Conv False None ConvU,
      Literal CHR '','', Conv False (Some 3) ConvU, Literal CHR ''.'', Conv False (Some 2) ConvU,
      Literal CHR '','', Conv False None ConvF, Literal CHR '','', Conv False None ConvF,
      Literal CHR '','', Conv False (Some 2) ConvU, Conv False (Some 2) ConvU, Conv False (Some 2) ConvU,
      Literal CHR '','', Conv False None ConvU]"
  by (simp add: qloc_format_def isspace_def isdigit_def digit_val_def)

lemma cme_directives:
  "parse_format Plain '' +CME ERROR: %u'' =
     White # map Literal ''+CME'' @ White # map Literal ''ERROR:'' @ [White, Conv False None ConvU]"
  by (simp add: isspace_def isdigit_def digit_val_def)

lemma white_literal_mismatch:
  "\<not> prefix lit (skip_ws t) \<Longrightarrow> \<not> prefix (skip_ws t) lit \<Longrightarrow>
     scan_run (White # map Literal lit @ ds) args t 0 c = (0, c)"
  using literal_mismatch [of lit "skip_ws t" ds args 0 c] by simp

lemma sscanf_qloc_mismatch:
  "\<not> prefix ''+QGPSLOC:'' (skip_ws buf) \<Longrightarrow> \<not> prefix (skip_ws buf) ''+QGPSLOC:'' \<Longrightarrow>
     sscanf buf qloc_format args c = (0, c)"
  unfolding sscanf_def qloc_directives by (rule white_literal_mismatch)

lemma sscanf_cme_mismatch:
  "\<not> prefix ''+CME'' (skip_ws buf) \<Longrightarrow> \<not> prefix (skip_ws buf) ''+CME'' \<Longrightarrow>
     sscanf buf '' +CME ERROR: %u'' args c = (0, c)"
  unfolding sscanf_def cme_directives by (rule white_literal_mismatch)


text \<open>
  C4, as amended. When the scan of a reply converts no field and stops at a character
  that does not fit the format (\<open>sscanf\<close> returns 0), \<open>parseQloc\<close> returns -1 and
  leaves the point and the context as they were. This is so for every reply that, after
  leading white space, departs from \<open>+QGPSLOC:\<close> at some character. And whenever
  \<open>parseQloc\<close> does not return 0, it has returned -1 and changed nothing.
\<close>

theorem parseQloc_failure_amended:
  "(fst (sscanf buf qloc_format qloc_args ctx) = 0 \<longrightarrow> parseQloc mk buf ctx pnt = (- 1, ctx, pnt))
   \<and> (\<not> prefix ''+QGPSLOC:'' (skip_ws buf) \<and> \<not> prefix (skip_ws buf) ''+QGPSLOC:''
        \<longrightarrow> parseQloc mk buf ctx pnt = (- 1, ctx, pnt))
   \<and> (fst (parseQloc mk buf ctx pnt) \<noteq> 0 \<longrightarrow> parseQloc mk buf ctx pnt = (- 1, ctx, pnt))"
proof (intro conjI impI)
  assume "fst (sscanf buf qloc_format qloc_args ctx) = 0"
  from sscanf_zero [OF this] show "parseQloc mk buf ctx pnt = (- 1, ctx, pnt)"
    by (simp add: parseQloc_def)
next
  assume "\<not> prefix ''+QGPSLOC:'' (skip_ws buf) \<and> \<not> prefix (skip_ws buf) ''+QGPSLOC:''"
  then have "sscanf buf qloc_format qloc_args ctx = (0, ctx)" by (simp add: sscanf_qloc_mismatch)
  then show "parseQloc mk buf ctx pnt = (- 1, ctx, pnt)" by (simp add: parseQloc_def)
next
  assume n: "fst (parseQloc mk buf ctx pnt) \<noteq> 0"
  have "fst (sscanf buf qloc_format qloc_args ctx) = 0"
  proof (rule ccontr)
    assume "fst (sscanf buf qloc_format qloc_args ctx) \<noteq> 0"
    then have "fst (parseQloc mk buf ctx pnt) = 0"
      by (simp add: parseQloc_def split_beta Let_def)
    with n show False by simp
  qed
  from sscanf_zero [OF this] show "parseQloc mk buf ctx pnt = (- 1, ctx, pnt)"
    by (simp add: parseQloc_def)
qed

text \<open>The line \<open>+CREG: 1,5\<close> departs from \<open>+QGPSLOC:\<close> at its second character.\<close>

theorem parseQloc_failure_amended_witness:
  "\<not> prefix ''+QGPSLOC:'' (skip_ws reply_other) \<and> \<not> prefix (skip_ws reply_other) ''+QGPSLOC:''
   \<and> parseQloc mktime_utc reply_other QlocContext_init LocationPoint_zero
       = (- 1, QlocContext_init, LocationPoint_zero)"
proof -
  have a: "\<not> prefix ''+QGPSLOC:'' (skip_ws reply_other) \<and> \<not> prefix (skip_ws reply_other) ''+QGPSLOC:''"
    by (simp add: reply_other_def skip_ws_def isspace_def)
  with parseQloc_failure_amended [of reply_other QlocContext_init mktime_utc LocationPoint_zero]
  show ?thesis by blast
qed

text \<open>
  C4 as the claim states it fails: the sample reply cut off after the latitude matches
  a prefix of the fields. \<open>parseQloc\<close> returns 0 and overwrites the point; the
  latitude is the reply's, the time is computed from the hour, minute and second of the
  reply and the zero date left in the context, 1999-11-30 06:19:51.
\<close>

theorem parseQloc_partial_counterexample:
  "fst (parseQloc mktime_utc reply_cut_off QlocContext_init LocationPoint_zero) = 0
   \<and> snd (snd (parseQloc mktime_utc reply_cut_off QlocContext_init LocationPoint_zero))
       = LocationPoint_zero\<lparr>epochTime := 943942791, latitude := 31.822312\<rparr>
   \<and> latitude LocationPoint_zero = 0 \<and> epochTime LocationPoint_zero = 0"
  by (simp add: parseQloc_def scan_cut_off mktime_cut_off init_sel LocationPoint_zero_def)

section \<open>Conversions on well-formed fields\<close>

lemma digit_facts:
  "isdigit c \<Longrightarrow> \<not> isspace c"
  "isdigit c \<Longrightarrow> c \<noteq> CHR ''-''"
  "isdigit c \<Longrightarrow> c \<noteq> CHR ''+''"
  "isdigit c \<Longrightarrow> c \<noteq> CHR ''.''"
  by (auto simp: isdigit_def isspace_def)

lemma digits_hd: "digits ds \<Longrightarrow> isdigit (hd ds)"
  by (cases ds) (auto simp: digits_def)

lemma skip_ws_keep: "s \<noteq> [] \<Longrightarrow> \<not> isspace (hd s) \<Longrightarrow> skip_ws s = s"
  by (cases s) (auto simp: skip_ws_def)

lemma skip_ws_spaces: "list_all isspace ws \<Longrightarrow> skip_ws (ws @ s) = skip_ws s"
  by (induction ws) (auto simp: skip_ws_def)

lemma skip_ws_Cons: "skip_ws (c # s) = (if isspace c then skip_ws s else c # s)"
  by (simp add: skip_ws_def)

lemma takeWhile_digits:
  "list_all isdigit ds \<Longrightarrow> rest = [] \<or> \<not> isdigit (hd rest) \<Longrightarrow> takeWhile isdigit (ds @ rest) = ds"
proof (induction ds)
  case Nil
  then show ?case by (cases rest) auto
next
  case (Cons d ds)
  then show ?case by simp
qed

lemma scan_sign_digit: "s \<noteq> [] \<Longrightarrow> isdigit (hd s) \<Longrightarrow> scan_sign s = (False, 0)"
  by (cases s) (auto simp: scan_sign_def digit_facts)

lemma scan_uint_unbounded:
  assumes "digits ds" and "rest = [] \<or> \<not> isdigit (hd rest)"
  shows "scan_uint None (ds @ rest) = Converted (strtoul_value False ds) rest"
proof -
  from assms(1) have ne: "ds \<noteq> []" and all: "list_all isdigit ds" by (simp_all add: digits_def)
  from digits_hd [OF assms(1)] ne have hd: "isdigit (hd (ds @ rest))" by simp
  with ne have sk: "skip_ws (ds @ rest) = ds @ rest" by (intro skip_ws_keep) (simp_all add: digit_facts)
  from ne hd have sg: "scan_sign (ds @ rest) = (False, 0)" by (intro scan_sign_digit) simp_all
  show ?thesis
    using ne by (simp add: scan_uint_def sk window_def sg takeWhile_digits [OF all assms(2)])
qed

lemma scan_uint_width:
  assumes "digits ds" and "length ds \<le> k" and "length ds = k \<or> rest = [] \<or> \<not> isdigit (hd rest)"
  shows "scan_uint (Some k) (ds @ rest) = Converted (strtoul_value False ds) rest"
proof -
  from assms(1) have ne: "ds \<noteq> []" and all: "list_all isdigit ds" by (simp_all add: digits_def)
  from digits_hd [OF assms(1)] ne have hd: "isdigit (hd (ds @ rest))" by simp
  with ne have sk: "skip_ws (ds @ rest) = ds @ rest" by (intro skip_ws_keep) (simp_all add: digit_facts)
  have w: "window (Some k) (ds @ rest) = ds @ take (k - length ds) rest"
    using assms(2) by (simp add: window_def)
  from ne hd have sg: "scan_sign (ds @ take (k - length ds) rest) = (False, 0)"
    using digits_hd [OF assms(1)] by (intro scan_sign_digit) simp_all
  have "take (k - length ds) rest = [] \<or> \<not> isdigit (hd (take (k - length ds) rest))"
    using assms(3) by (cases rest) (auto simp: take_Cons')
  from takeWhile_digits [OF all this]
  have tw: "takeWhile isdigit (ds @ take (k - length ds) rest) = ds" .
  show ?thesis
    using ne by (simp add: scan_uint_def sk w sg tw)
qed

lemma digit_char_facts:
  assumes "d < 10"
  shows "isdigit (digit_char d)" and "digit_val (digit_char d) = d"
proof -
  from assms have "d = 0 \<or> d = 1 \<or> d = 2 \<or> d = 3 \<or> d = 4 \<or> d = 5 \<or> d = 6
    \<or> d = 7 \<or> d = 8 \<or> d = 9"
    by arith
  then have "isdigit (digit_char d) \<and> digit_val (digit_char d) = d"
    by (elim disjE) (simp_all add: digit_char_def isdigit_def digit_val_def)
  then show "isdigit (digit_char d)" and "digit_val (digit_char d) = d" by simp_all
qed

lemma dec2_digits: "n < 100 \<Longrightarrow> digits (dec2 n)" "length (dec2 n) = 2"
  by (simp_all add: dec2_def digits_def digit_char_facts)

lemma dec3_digits: "n < 1000 \<Longrightarrow> digits (dec3 n)" "length (dec3 n) = 3"
  by (simp_all add: dec3_def digits_def digit_char_facts)

lemma dec2_value: "n < 100 \<Longrightarrow> strtoul_value False (dec2 n) = of_nat n"
  by (simp add: strtoul_value_def nat_of_digits_def dec2_def digit_char_facts)

lemma dec3_value: "n < 1000 \<Longrightarrow> strtoul_value False (dec3 n) = of_nat n"
proof -
  assume n: "n < 1000"
  have "10 * (10 * (n div 100) + n div 10 mod 10) + n mod 10
          = 100 * (n div 100) + (10 * (n div 10 mod 10) + n mod 10)"
    by simp
  also have "\<dots> = 100 * (n div 100) + n mod (10 * 10)"
    by (simp only: mod_mult2_eq)
  also have "\<dots> = n" by simp
  finally have "10 * (10 * (n div 100) + n div 10 mod 10) + n mod 10 = n" .
  with n show ?thesis
    by (simp add: strtoul_value_def nat_of_digits_def dec3_def digit_char_facts)
qed

lemma scan_dec2: "n < 100 \<Longrightarrow> scan_uint (Some 2) (dec2 n @ rest) = Converted (of_nat n) rest"
  using scan_uint_width [of "dec2 n" 2 rest] by (simp add: dec2_digits dec2_value)

lemma scan_dec3: "n < 1000 \<Longrightarrow> scan_uint (Some 3) (dec3 n @ rest) = Converted (of_nat n) rest"
  using scan_uint_width [of "dec3 n" 3 rest] by (simp add: dec3_digits dec3_value)

lemma drop_add: "drop (a + b) xs = drop b (drop a xs)"
  by (simp add: add.commute)

lemma scan_float_decimal:
  assumes "decimal s" and "rest = [] \<or> \<not> isdigit (hd rest)"
  shows "scan_float None (s @ rest) = Converted (decimal_value s) rest"
proof -
  from assms(1) obtain c cs where s: "s = c # cs" by (cases s) (auto simp: decimal_def)
  define body where "body = (if c = CHR ''-'' then cs else c # cs)"
  define ip where "ip = takeWhile isdigit body"
  define k :: nat where "k = (if c = CHR ''-'' then 1 else 0)"
  from assms(1) have "digits ip \<and>
      (case dropWhile isdigit body of [] \<Rightarrow> False | p # fd \<Rightarrow> p = CHR ''.'' \<and> list_all isdigit fd)"
    by (simp only: decimal_def s body_def ip_def list.simps(5))
  then have ip: "digits ip"
    and dw: "case dropWhile isdigit body of [] \<Rightarrow> False | p # fd \<Rightarrow> p = CHR ''.'' \<and> list_all isdigit fd"
    by simp_all
  from dw obtain fd where fd: "dropWhile isdigit body = CHR ''.'' # fd" "list_all isdigit fd"
    by (auto split: list.splits)
  have body: "body = ip @ CHR ''.'' # fd"
    using takeWhile_dropWhile_id [of isdigit body] fd(1) by (simp add: ip_def)
  from ip have ipne: "ip \<noteq> []" and ipall: "list_all isdigit ip" by (simp_all add: digits_def)
  have c: "c = CHR ''-'' \<or> isdigit c"
  proof (cases "c = CHR ''-''")
    case True
    then show ?thesis by simp
  next
    case False
    with s body ipne have "c = hd ip" by (cases ip) (auto simp: body_def)
    with digits_hd [OF ip] show ?thesis by simp
  qed
  then have "\<not> isspace c"
  proof
    assume "c = CHR ''-''"
    then show ?thesis by (simp add: isspace_def)
  next
    assume "isdigit c"
    then show ?thesis by (rule digit_facts)
  qed
  then have sk: "skip_ws (s @ rest) = s @ rest" by (simp add: s skip_ws_def)
  have sg: "scan_sign (s @ rest) = (c = CHR ''-'', k)"
    using c digit_facts(3) [of c] by (auto simp: s scan_sign_def k_def)
  have dr: "drop k (s @ rest) = ip @ CHR ''.'' # fd @ rest"
    using body by (auto simp: s body_def k_def)
  have t1: "takeWhile isdigit (ip @ CHR ''.'' # fd @ rest) = ip"
    using takeWhile_digits [OF ipall, of "CHR ''.'' # fd @ rest"] by (simp add: isdigit_def)
  have "drop (k + length ip) (s @ rest) = drop (length ip) (drop k (s @ rest))"
    by (rule drop_add)
  then have dr2: "drop (k + length ip) (s @ rest) = CHR ''.'' # fd @ rest"
    by (simp only: dr) simp
  have t2: "takeWhile isdigit (fd @ rest) = fd"
    by (rule takeWhile_digits [OF fd(2) assms(2)])
  have "drop (k + length ip + (1 + length fd)) (s @ rest)
          = drop (1 + length fd) (drop (k + length ip) (s @ rest))"
    by (rule drop_add)
  then have dr3: "drop (k + length ip + (1 + length fd)) (s @ rest) = rest"
    by (simp only: dr2) simp
  have "decimal_value s =
          strtod_value (c = CHR ''-'') (takeWhile isdigit body) (tl (dropWhile isdigit body))"
    by (simp only: decimal_value_def s body_def list.sel)
  then have v: "decimal_value s = strtod_value (c = CHR ''-'') ip fd"
    by (simp only: fd(1) ip_def list.sel)
  have ne: "(s @ rest = []) = False" by (simp add: s)
  have pt: "(CHR ''.'' # fd @ rest \<noteq> [] \<and> hd (CHR ''.'' # fd @ rest) = CHR ''.'') = True" by simp
  have pt2: "(CHR ''.'' # fd @ rest \<noteq> [] \<and> CHR ''.'' = CHR ''.'') = True" by simp
  have e: "(ip = [] \<and> fd = []) = False" using ipne by simp
  show ?thesis
    by (simp only: scan_float_def Let_def sk ne if_False window_def option.case sg prod.case dr t1
        dr2 pt pt2 if_True list.sel t2 e dr3 v)
qed

section \<open>Device error codes\<close>

lemma skip_ws_digits: "digits ds \<Longrightarrow> skip_ws (ds @ rest) = ds @ rest"
  using digits_hd [of ds] by (intro skip_ws_keep) (auto simp: digits_def digit_facts)

lemma sscanf_cme_code:
  assumes "list_all isspace ws" and "digits ds" and "rest = [] \<or> \<not> isdigit (hd rest)"
  shows "sscanf (ws @ ''+CME ERROR: '' @ ds @ rest) '' +CME ERROR: %u'' [ArgU st] c
           = (1, st (strtoul_value False ds) c)"
proof -
  have "skip_ws (ws @ ''+CME ERROR: '' @ ds @ rest) = ''+CME ERROR: '' @ ds @ rest"
    by (simp add: skip_ws_spaces [OF assms(1)] skip_ws_Cons isspace_def)
  then show ?thesis
    unfolding sscanf_def cme_directives
    by (simp add: skip_ws_Cons isspace_def skip_ws_digits [OF assms(2)] convert_def stored_def
        scan_uint_unbounded [OF assms(2,3)])
qed

lemma fault_of_word:
  assumes "n < 2 ^ 32"
  shows "(if (of_nat n :: 32 word) = 504 then SESSION_IS_ONGOING
          else if (of_nat n :: 32 word) = 505 then SESSION_NOT_ACTIVE
          else if (of_nat n :: 32 word) = 506 then OPERATION_TIMEOUT
          else if (of_nat n :: 32 word) = 516 then NO_FIX
          else if (of_nat n :: 32 word) = 522 then GNSS_IS_WORKING
          else if (of_nat n :: 32 word) = 549 then UNKNOWN_ERROR
          else UNDEFINED) = fault_of_code n"
proof -
  have u: "\<And>k. k < 2 ^ 32 \<Longrightarrow> unat (of_nat k :: 32 word) = k"
    by (simp add: unat_of_nat)
  have e: "\<And>k. k < 2 ^ 32 \<Longrightarrow> ((of_nat n :: 32 word) = of_nat k) = (n = k)"
    using assms u by metis
  have "(of_nat n :: 32 word) = 504 \<longleftrightarrow> n = 504" using e [of 504] by simp
  moreover have "(of_nat n :: 32 word) = 505 \<longleftrightarrow> n = 505" using e [of 505] by simp
  moreover have "(of_nat n :: 32 word) = 506 \<longleftrightarrow> n = 506" using e [of 506] by simp
  moreover have "(of_nat n :: 32 word) = 516 \<longleftrightarrow> n = 516" using e [of 516] by simp
  moreover have "(of_nat n :: 32 word) = 522 \<longleftrightarrow> n = 522" using e [of 522] by simp
  moreover have "(of_nat n :: 32 word) = 549 \<longleftrightarrow> n = 549" using e [of 549] by simp
  ultimately show ?thesis by (simp add: fault_of_code_def)
qed

lemma literal_match:
  "scan_run (map Literal lit @ ds) args (lit @ t) n c = scan_run ds args t n c"
  by (induction lit) simp_all

lemma literal_short:
  "prefix t lit \<Longrightarrow> t \<noteq> lit \<Longrightarrow> scan_run (map Literal lit @ ds) args t n c = (input_failure n, c)"
proof (induction lit arbitrary: t)
  case Nil
  then show ?case by simp
next
  case (Cons x xs)
  then show ?case by (cases t) auto
qed

lemma skip_ws_idem: "skip_ws (skip_ws s) = skip_ws s"
  by (simp add: skip_ws_def)

lemma takeWhile_empty: "takeWhile P s = [] \<longleftrightarrow> s = [] \<or> \<not> P (hd s)"
  by (cases s) auto

lemma scan_uint_outcome:
  "scan_uint None s = InputFail \<longleftrightarrow> skip_ws s = []"
  "scan_uint None s = MatchFail \<longleftrightarrow> skip_ws s \<noteq> [] \<and> \<not> begins_code (skip_ws s)"
proof -
  show "scan_uint None s = InputFail \<longleftrightarrow> skip_ws s = []"
    by (simp add: scan_uint_def Let_def split_beta window_def)
  show "scan_uint None s = MatchFail \<longleftrightarrow> skip_ws s \<noteq> [] \<and> \<not> begins_code (skip_ws s)"
  proof (cases "skip_ws s")
    case Nil
    then show ?thesis by (simp add: scan_uint_def)
  next
    case (Cons x xs)
    then show ?thesis
      by (auto simp: scan_uint_def Let_def window_def scan_sign_def begins_code_def takeWhile_empty
          digit_facts)
  qed
qed

lemma code_run:
  "fst (scan_run [White, Conv False None ConvU] [ArgU st] u 0 c) = 0
     \<longleftrightarrow> skip_ws u \<noteq> [] \<and> \<not> begins_code (skip_ws u)"
proof (cases "scan_uint None (skip_ws u)")
  case (Converted v rest)
  with scan_uint_outcome(2) [of "skip_ws u"] show ?thesis
    by (simp add: convert_def stored_def skip_ws_idem)
next
  case MatchFail
  with scan_uint_outcome(2) [of "skip_ws u"] show ?thesis
    by (simp add: convert_def stored_def skip_ws_idem)
next
  case InputFail
  with scan_uint_outcome(1) [of "skip_ws u"] show ?thesis
    by (simp add: convert_def stored_def skip_ws_idem input_failure_def EOF_def)
qed

lemma word_run:
  "fst (scan_run (map Literal lit @ ds) args t 0 c) = 0 \<longleftrightarrow>
     (\<not> prefix lit t \<and> \<not> prefix t lit)
     \<or> (prefix lit t \<and> fst (scan_run ds args (drop (length lit) t) 0 c) = 0)"
proof -
  consider (departs) "\<not> prefix lit t" "\<not> prefix t lit"
    | (short) "prefix t lit" "t \<noteq> lit"
    | (match) "prefix lit t"
    by auto
  then show ?thesis
  proof cases
    case departs
    then show ?thesis by (simp add: literal_mismatch)
  next
    case short
    then have "\<not> prefix lit t" by (auto dest: prefix_order.antisym)
    with short show ?thesis by (simp add: literal_short input_failure_def EOF_def)
  next
    case match
    then obtain r where "t = lit @ r" by (auto simp: prefix_def)
    then show ?thesis by (simp add: literal_match)
  qed
qed

lemma words_run:
  "fst (scan_run (White # map Literal l1 @ White # map Literal l2 @ [White, Conv False None ConvU])
          [ArgU st] buf 0 x) = 0 \<longleftrightarrow>
     (let a = skip_ws buf;
          b = skip_ws (drop (length l1) a);
          c = skip_ws (drop (length l2) b)
      in (\<not> prefix l1 a \<and> \<not> prefix a l1)
         \<or> (prefix l1 a \<and> \<not> prefix l2 b \<and> \<not> prefix b l2)
         \<or> (prefix l1 a \<and> prefix l2 b \<and> c \<noteq> [] \<and> \<not> begins_code c))"
proof -
  have "fst (scan_run (White # map Literal l1 @ White # map Literal l2 @ [White, Conv False None ConvU])
          [ArgU st] buf 0 x)
      = fst (scan_run (map Literal l1 @ White # map Literal l2 @ [White, Conv False None ConvU])
          [ArgU st] (skip_ws buf) 0 x)"
    by simp
  moreover have "\<And>t. fst (scan_run (White # map Literal l2 @ [White, Conv False None ConvU]) [ArgU st] t 0 x)
      = fst (scan_run (map Literal l2 @ [White, Conv False None ConvU]) [ArgU st] (skip_ws t) 0 x)"
    by simp
  ultimately show ?thesis
    unfolding Let_def by (simp only: word_run code_run) blast
qed

lemma sscanf_cme_departs:
  "fst (sscanf buf '' +CME ERROR: %u'' [ArgU st] c) = 0 \<longleftrightarrow> departs_before_code buf"
  unfolding departs_before_code_def sscanf_def cme_directives by (rule words_run)

lemma parseCmeError_none:
  "parseCmeError buf = NONE \<longleftrightarrow> fst (sscanf buf '' +CME ERROR: %u'' [ArgU (\<lambda>v _. v)] (0 :: 32 word)) = 0"
  by (simp add: parseCmeError_def split_beta Let_def)

text \<open>
  C5, as amended. On a text that consists of optional white space, \<open>+CME ERROR: \<close>, a
  decimal code below \<open>2^32\<close> and a rest that does not go on with a digit,
  \<open>parseCmeError\<close> returns the fault of the code: \<open>NO_FIX\<close> exactly for 516, the
  enumerator of that value for each of 504, 505, 506, 516, 522 and 549, and
  \<open>UNDEFINED\<close> (not \<open>UNKNOWN_ERROR\<close>, which is the name of 549) for every other
  code. On a text that, after leading white space, departs from \<open>+CME\<close> at some
  character, it returns \<open>NONE\<close>; and so it does on every text that departs from the
  pattern at any character before a code: inside \<open>+CME\<close>, inside \<open>ERROR:\<close> after
  \<open>+CME\<close>, or at a character after \<open>ERROR:\<close> that does not begin a code. On a
  text that begins with the pattern it never returns \<open>NONE\<close>.
\<close>

theorem parseCmeError_amended:
  "(list_all isspace ws \<and> digits ds \<and> (rest = [] \<or> \<not> isdigit (hd rest)) \<and> nat_of_digits ds < 2 ^ 32
      \<longrightarrow> parseCmeError (ws @ ''+CME ERROR: '' @ ds @ rest) = fault_of_code (nat_of_digits ds)
          \<and> (parseCmeError (ws @ ''+CME ERROR: '' @ ds @ rest) = NO_FIX \<longleftrightarrow> nat_of_digits ds = 516)
          \<and> (nat_of_digits ds \<in> {504, 505, 506, 516, 522, 549}
               \<longrightarrow> CME_Error_value (parseCmeError (ws @ ''+CME ERROR: '' @ ds @ rest)) = nat_of_digits ds)
          \<and> (nat_of_digits ds \<notin> {504, 505, 506, 516, 522, 549}
               \<longrightarrow> parseCmeError (ws @ ''+CME ERROR: '' @ ds @ rest) = UNDEFINED))
   \<and> (\<not> prefix ''+CME'' (skip_ws buf) \<and> \<not> prefix (skip_ws buf) ''+CME''
      \<longrightarrow> parseCmeError buf = NONE)
   \<and> (departs_before_code buf \<longrightarrow> parseCmeError buf = NONE)
   \<and> (begins_pattern buf \<longrightarrow> parseCmeError buf \<noteq> NONE)"
proof (intro conjI impI)
  assume "\<not> prefix ''+CME'' (skip_ws buf) \<and> \<not> prefix (skip_ws buf) ''+CME''"
  then show "parseCmeError buf = NONE"
    by (simp add: parseCmeError_def sscanf_cme_mismatch)
next
  assume "departs_before_code buf"
  then show "parseCmeError buf = NONE"
    by (simp only: parseCmeError_none sscanf_cme_departs)
next
  assume "begins_pattern buf"
  then have "\<not> departs_before_code buf"
    by (auto simp: begins_pattern_def departs_before_code_def Let_def)
  then show "parseCmeError buf \<noteq> NONE"
    by (simp add: parseCmeError_none sscanf_cme_departs)
next
  assume h: "list_all isspace ws \<and> digits ds \<and> (rest = [] \<or> \<not> isdigit (hd rest)) \<and> nat_of_digits ds < 2 ^ 32"
  then have n: "nat_of_digits ds < 2 ^ 32" by simp
  then have v: "strtoul_value False ds = of_nat (nat_of_digits ds)"
    by (simp add: strtoul_value_def)
  from h have a: "list_all isspace ws" "digits ds" "rest = [] \<or> \<not> isdigit (hd rest)" by simp_all
  have "sscanf (ws @ ''+CME ERROR: '' @ ds @ rest) '' +CME ERROR: %u'' [ArgU (\<lambda>v _. v)] (0 :: 32 word)
      = (1, of_nat (nat_of_digits ds))"
    by (simp only: sscanf_cme_code [OF a] v)
  then have p: "parseCmeError (ws @ ''+CME ERROR: '' @ ds @ rest) = fault_of_code (nat_of_digits ds)"
    unfolding parseCmeError_def by (simp add: fault_of_word [OF n])
  show "parseCmeError (ws @ ''+CME ERROR: '' @ ds @ rest) = fault_of_code (nat_of_digits ds)"
    by (rule p)
  show "parseCmeError (ws @ ''+CME ERROR: '' @ ds @ rest) = NO_FIX \<longleftrightarrow> nat_of_digits ds = 516"
    unfolding p by (simp add: fault_of_code_def)
  show "CME_Error_value (parseCmeError (ws @ ''+CME ERROR: '' @ ds @ rest)) = nat_of_digits ds"
    if "nat_of_digits ds \<in> {504, 505, 506, 516, 522, 549}"
    using that unfolding p by (auto simp: fault_of_code_def)
  show "parseCmeError (ws @ ''+CME ERROR: '' @ ds @ rest) = UNDEFINED"
    if "nat_of_digits ds \<notin> {504, 505, 506, 516, 522, 549}"
    using that unfolding p by (auto simp: fault_of_code_def)
qed

text \<open>
  A reply with code 516 after a blank; the sample position reply, which departs from
  \<open>+CME\<close> at its second character; \<open>+CME FOO\<close>, which departs inside
  \<open>ERROR:\<close>; \<open>+CME ERROR: abc\<close>, which has no code; and \<open>+CME ERROR: 516\<close>,
  which begins with the pattern.
\<close>

theorem parseCmeError_amended_witness:
  "parseCmeError ('' '' @ ''+CME ERROR: '' @ ''516'' @ []) = NO_FIX
   \<and> \<not> prefix ''+CME'' (skip_ws reply_position) \<and> \<not> prefix (skip_ws reply_position) ''+CME''
   \<and> parseCmeError reply_position = NONE
   \<and> departs_before_code ''+CME FOO'' \<and> parseCmeError ''+CME FOO'' = NONE
   \<and> departs_before_code ''+CME ERROR: abc'' \<and> parseCmeError ''+CME ERROR: abc'' = NONE
   \<and> begins_pattern ''+CME ERROR: 516'' \<and> parseCmeError ''+CME ERROR: 516'' \<noteq> NONE"
proof -
  have h: "list_all isspace '' '' \<and> digits ''516'' \<and> ([] = [] \<or> \<not> isdigit (hd []))
      \<and> nat_of_digits ''516'' < 2 ^ 32"
    by (simp add: digits_def isdigit_def isspace_def nat_of_digits_def digit_val_def)
  have n: "nat_of_digits ''516'' = 516"
    by (simp add: nat_of_digits_def digit_val_def)
  have a: "\<not> prefix ''+CME'' (skip_ws reply_position) \<and> \<not> prefix (skip_ws reply_position) ''+CME''"
    by (simp add: reply_position_def skip_ws_def isspace_def)
  have b: "departs_before_code ''+CME FOO''"
    by (simp add: departs_before_code_def skip_ws_def isspace_def)
  have c: "departs_before_code ''+CME ERROR: abc''"
    by (simp add: departs_before_code_def skip_ws_def isspace_def begins_code_def isdigit_def)
  from parseCmeError_amended [of "'' ''" "''516''" "[]" reply_position] h a n
  have 1: "parseCmeError ('' '' @ ''+CME ERROR: '' @ ''516'' @ []) = NO_FIX"
    and 2: "parseCmeError reply_position = NONE"
    by blast+
  from parseCmeError_amended [of "'' ''" "''516''" "[]" "''+CME FOO''"] b
  have 3: "parseCmeError ''+CME FOO'' = NONE" by blast
  from parseCmeError_amended [of "'' ''" "''516''" "[]" "''+CME ERROR: abc''"] c
  have 4: "parseCmeError ''+CME ERROR: abc'' = NONE" by blast
  have e: "begins_pattern ''+CME ERROR: 516''"
    by (simp add: begins_pattern_def skip_ws_def isspace_def begins_code_def isdigit_def)
  from parseCmeError_amended [of "'' ''" "''516''" "[]" "''+CME ERROR: 516''"] e
  have 5: "parseCmeError ''+CME ERROR: 516'' \<noteq> NONE" by blast
  from 1 a 2 b 3 c 4 e 5 show ?thesis by blast
qed

text \<open>
  C5 as the claim states it fails. A text that contains \<open>+CME ERROR: 516\<close> after
  other characters gives \<open>NONE\<close>; one that contains it as the beginning of the code
  5160 gives \<open>UNDEFINED\<close>; the code 517 gives \<open>UNDEFINED\<close>, which is not the fault
  named unknown; and the empty text, which holds no such pattern, gives \<open>UNDEFINED\<close>,
  not \<open>NONE\<close>.
\<close>

theorem parseCmeError_counterexample:
  "''OK +CME ERROR: 516'' = ''OK '' @ ''+CME ERROR: 516''
   \<and> parseCmeError ''OK +CME ERROR: 516'' = NONE
   \<and> ''+CME ERROR: 5160'' = ''+CME ERROR: 516'' @ ''0''
   \<and> parseCmeError ''+CME ERROR: 5160'' = UNDEFINED
   \<and> parseCmeError ''+CME ERROR: 517'' = UNDEFINED
   \<and> UNDEFINED \<noteq> UNKNOWN_ERROR
   \<and> parseCmeError [] = UNDEFINED"
  by (simp add: parseCmeError_def scan_defs)

section \<open>Well-formed position replies\<close>

lemma skip_ws_dec2: "n < 100 \<Longrightarrow> skip_ws (dec2 n @ rest) = dec2 n @ rest"
  by (rule skip_ws_digits) (rule dec2_digits)

lemma comma_not_digit: "\<not> isdigit CHR '',''" "\<not> isdigit CHR ''.''"
  by (simp_all add: isdigit_def)

lemma scan_frac:
  "digits ds \<Longrightarrow> length ds \<le> 3 \<Longrightarrow>
     scan_uint (Some 3) (ds @ CHR '','' # rest) = Converted (strtoul_value False ds) (CHR '','' # rest)"
  by (rule scan_uint_width) (simp_all add: comma_not_digit)

lemma scan_count:
  "digits ds \<Longrightarrow>
     scan_uint None (ds @ CHR '','' # rest) = Converted (strtoul_value False ds) (CHR '','' # rest)"
  by (rule scan_uint_unbounded) (simp_all add: comma_not_digit)

lemma scan_last:
  "digits ds \<Longrightarrow> scan_uint None ds = Converted (strtoul_value False ds) []"
  using scan_uint_unbounded [of ds "[]"] by simp

lemma scan_decimal:
  "decimal s \<Longrightarrow>
     scan_float None (s @ CHR '','' # rest) = Converted (decimal_value s) (CHR '','' # rest)"
  by (rule scan_float_decimal) (simp_all add: comma_not_digit)

lemma sscanf_position:
  assumes "well_formed f"
  shows "sscanf (position_reply f) qloc_format qloc_args c =
     (16, c\<lparr>q_tm_hour := of_nat (utc_hour f), q_tm_min := of_nat (utc_min f),
            q_tm_sec := of_nat (utc_sec f),
            q_latitude := decimal_value (lat_text f), q_longitude := decimal_value (lon_text f),
            q_hdop := decimal_value (hdop_text f), q_altitude := decimal_value (alt_text f),
            q_fix := strtoul_value False (fix_text f),
            q_cogDegrees := of_nat (cog_deg f), q_cogMinutes := of_nat (cog_min f),
            q_speedKmph := decimal_value (kmh_text f), q_speedKnots := decimal_value (knots_text f),
            q_tm_day := of_nat (date_day f), q_tm_month := of_nat (date_month f),
            q_tm_year := of_nat (date_year f),
            q_nsat := strtoul_value False (nsat_text f)\<rparr>)"
  using assms unfolding sscanf_def qloc_directives position_reply_def well_formed_def qloc_args_def
  by (simp add: skip_ws_Cons isspace_def skip_ws_dec2 convert_def stored_def suppressed_def
      scan_dec2 scan_dec3 scan_frac scan_count scan_last scan_decimal)

lemma sint_small: "n < 2 ^ 31 \<Longrightarrow> sint (of_nat n :: 32 word) = int n"
  by (simp add: signed_of_nat signed_take_bit_int_eq_self)

lemma unat_small: "n < 2 ^ 32 \<Longrightarrow> unat (of_nat n :: 32 word) = n"
  by (simp add: unat_of_nat)

lemma sint_year: "n < 100 \<Longrightarrow> sint (of_nat n + 2000 - 1900 :: 32 word) = int n + 100"
proof -
  assume n: "n < 100"
  have "(of_nat n + 2000 - 1900 :: 32 word) = of_nat (n + 100)" by simp
  then have "sint (of_nat n + 2000 - 1900 :: 32 word) = sint (of_nat (n + 100) :: 32 word)"
    by (rule arg_cong)
  also have "\<dots> = int (n + 100)" using n by (intro sint_small) simp
  finally show ?thesis by simp
qed

lemma sint_month: "n < 100 \<Longrightarrow> sint (of_nat n - 1 :: 32 word) = int n - 1"
proof (cases n)
  case 0
  then show ?thesis by simp
next
  case (Suc m)
  assume n: "n < 100"
  have "(of_nat n - 1 :: 32 word) = of_nat m" using Suc by simp
  then have "sint (of_nat n - 1 :: 32 word) = sint (of_nat m :: 32 word)" by (rule arg_cong)
  also have "\<dots> = int m" using n Suc by (intro sint_small) simp
  finally show ?thesis using Suc by simp
qed

lemma sint_year_nf: "n < 100 \<Longrightarrow> sint (100 + of_nat n :: 32 word) = 100 + int n"
  using sint_year [of n] by (simp add: add.commute)

lemma unsigned_small: "n < 2 ^ 32 \<Longrightarrow> (unsigned (of_nat n :: 32 word) :: real) = real n"
proof -
  assume "n < 2 ^ 32"
  then have "real (unat (of_nat n :: 32 word)) = real n" by (simp only: unat_small)
  then show ?thesis by simp
qed

text \<open>
  C9. For every well-formed position reply \<open>parseQloc\<close> succeeds, the point's epoch
  time is what the calendar conversion makes of the reply's UTC fields (the two-digit
  year plus 2000 counted from 1900, the month minus one, day, hour, minute, second),
  and its heading is the degrees plus the minutes divided by 60. Well-formed asks of
  the numbers only that they fit their digits, so minutes from 0 to 59 are covered.
\<close>

theorem parseQloc_epoch_heading:
  assumes "well_formed f"
  shows "fst (parseQloc mk (position_reply f) ctx pnt) = 0
     \<and> epochTime (snd (snd (parseQloc mk (position_reply f) ctx pnt)))
         = fst (mk ((timeinfo ctx)\<lparr>tm_year := int (date_year f) + 2000 - 1900,
                                   tm_mon := int (date_month f) - 1,
                                   tm_mday := int (date_day f),
                                   tm_hour := int (utc_hour f),
                                   tm_min := int (utc_min f),
                                   tm_sec := int (utc_sec f)\<rparr>))
     \<and> heading (snd (snd (parseQloc mk (position_reply f) ctx pnt)))
         = real (cog_deg f) + real (cog_min f) / 60"
proof -
  from assms have b: "utc_hour f < 100" "utc_min f < 100" "utc_sec f < 100" "date_day f < 100"
    "date_month f < 100" "date_year f < 100" "cog_deg f < 1000" "cog_min f < 100"
    by (simp_all add: well_formed_def)
  show ?thesis
    using b
    by (simp add: parseQloc_def sscanf_position [OF assms] split_beta Let_def sint_year_nf
        sint_month sint_small unsigned_small)
qed

lemma position_reply_sample: "position_reply position_sample = reply_position"
  by (simp add: position_reply_def position_sample_def reply_position_def dec2_def dec3_def digit_char_def)

lemma well_formed_sample: "well_formed position_sample"
  by (simp add: well_formed_def position_sample_def digits_def decimal_def isdigit_def)

text \<open>
  The sample reply: 2024-02-29 06:19:51 UTC is 1709187591, and 123 degrees 45 minutes
  are 123.75 degrees.
\<close>

theorem parseQloc_epoch_heading_witness:
  "well_formed position_sample
   \<and> position_reply position_sample = reply_position
   \<and> fst (parseQloc mktime_utc reply_position QlocContext_init LocationPoint_zero) = 0
   \<and> epochTime (snd (snd (parseQloc mktime_utc reply_position QlocContext_init LocationPoint_zero))) = 1709187591
   \<and> heading (snd (snd (parseQloc mktime_utc reply_position QlocContext_init LocationPoint_zero))) = 123.75"
proof -
  have m: "fst (mktime_utc ((timeinfo QlocContext_init)
             \<lparr>tm_year := int (date_year position_sample) + 2000 - 1900,
              tm_mon := int (date_month position_sample) - 1,
              tm_mday := int (date_day position_sample),
              tm_hour := int (utc_hour position_sample),
              tm_min := int (utc_min position_sample),
              tm_sec := int (utc_sec position_sample)\<rparr>)) = 1709187591"
    by (simp add: position_sample_def cal_defs)
  have h: "real (cog_deg position_sample) + real (cog_min position_sample) / 60 = 123.75"
    by (simp add: position_sample_def)
  from parseQloc_epoch_heading [OF well_formed_sample, of mktime_utc QlocContext_init LocationPoint_zero]
  show ?thesis
    unfolding m h position_reply_sample
    using well_formed_sample by simp
qed

end
